theory Spec2Isabelle
  imports Main
begin

section \<open>Data model\<close>

text \<open>
  The session controller of the application (the \<open>App\<close> component) keeps its state in
  fourteen state hooks and talks to the remote document-store service through the
  functions of \<open>services/geminiService.ts\<close>. The model is a state-passing one: every
  handler takes the state it was rendered with, runs to completion and returns the state
  it leaves behind.
\<close>

datatype AppStatus = Initializing | Welcome | Uploading | Chatting | Error

record RagStore =
  name :: string
  displayName :: string

text \<open>A browser \<open>File\<close>: the handlers read its \<open>name\<close> only and pass it on whole.\<close>

record File =
  file_name :: string
  file_bytes :: string

record UploadProgress =
  current :: nat
  total_steps :: nat
  message :: "string option"
  fileName :: "string option"

text \<open>Citation references are opaque to the controller: they are passed through.\<close>

type_synonym GroundingChunk = string

datatype Role = User | Model

text \<open>A chat message; each element of \<open>parts\<close> is the \<open>text\<close> of one part.\<close>

record ChatMessage =
  role :: Role
  parts :: "string list"
  groundingChunks :: "GroundingChunk list option"

record QueryResult =
  result_text :: string
  result_groundingChunks :: "GroundingChunk list"

text \<open>
  A thrown JavaScript value, reduced to what the handlers observe of it:
  \<open>err instanceof Error\<close> with its \<open>message\<close>, or any other value with its
  truthiness and its rendering by \<open>String(err)\<close>.
\<close>

datatype thrown = ErrorObj string | NonError bool string

fun truthy :: "thrown \<Rightarrow> bool" where
  "truthy (ErrorObj m) = True"
| "truthy (NonError b s) = b"

text \<open>\<open>err instanceof Error ? err.message : String(err)\<close>\<close>

fun errText :: "thrown \<Rightarrow> string" where
  "errText (ErrorObj m) = m"
| "errText (NonError b s) = s"

subsection \<open>Effects\<close>

text \<open>
  Beside the hooks, the state carries the state of the remote service and a trace of the
  effects the properties below speak about: every call of \<open>setUploadProgress\<close> and of
  \<open>setExistingStores\<close>, every call of the gateway, every \<open>alert\<close>.
\<close>

datatype remote_call =
    CreateRagStore string
  | ListRagStores
  | UploadToRagStore string File
  | DeleteRagStore string
  | DeleteFile string
  | FileSearch string string
  | GenerateExampleQuestions string

datatype event =
    Progress "UploadProgress option"
  | Cache "RagStore list"
  | Remote remote_call
  | Alert string

record 'r world =
  status :: AppStatus
  isApiKeySelected :: bool
  apiKeyError :: "string option"
  error :: "string option"
  uploadProgress :: "UploadProgress option"
  activeRagStoreName :: "string option"
  chatHistory :: "ChatMessage list"
  isQueryLoading :: bool
  exampleQuestions :: "string list"
  documentName :: string
  files :: "File list"
  existingStores :: "RagStore list"
  isLoadingStores :: bool
  libraryError :: "string option"
  remote :: 'r
  trace :: "event list"

text \<open>
  The gateway: the exported functions of \<open>geminiService\<close> as the controller sees them, each
  a transition of the remote state that resolves (\<open>Inr\<close>) or rejects (\<open>Inl\<close>). A call that
  never settles (\<open>uploadToRagStore\<close> polls its operation until it is done) leaves the
  handler suspended for good and has no state after it; the runs below are those whose
  calls settle. The two strings are what \<open>new Date().toLocaleDateString()\<close> and
  \<open>toLocaleTimeString()\<close> give.
\<close>

record 'r gateway =
  createRagStore :: "string \<Rightarrow> 'r \<Rightarrow> (thrown + string) \<times> 'r"
  listRagStores :: "'r \<Rightarrow> (thrown + RagStore list) \<times> 'r"
  uploadToRagStore :: "string \<Rightarrow> File \<Rightarrow> 'r \<Rightarrow> (thrown + unit) \<times> 'r"
  deleteRagStore :: "string \<Rightarrow> 'r \<Rightarrow> (thrown + unit) \<times> 'r"
  deleteFile :: "string \<Rightarrow> 'r \<Rightarrow> (thrown + unit) \<times> 'r"
  fileSearch :: "string \<Rightarrow> string \<Rightarrow> 'r \<Rightarrow> (thrown + QueryResult) \<times> 'r"
  generateExampleQuestions :: "string \<Rightarrow> 'r \<Rightarrow> (thrown + string list) \<times> 'r"
  localeDate :: string
  localeTime :: string

definition call :: "remote_call \<Rightarrow> ('r \<Rightarrow> 'a \<times> 'r) \<Rightarrow> 'r world \<Rightarrow> 'a \<times> 'r world" where
  "call c f w =
     (case f (remote w) of
        (x, r') \<Rightarrow> (x, w\<lparr>remote := r', trace := trace w @ [Remote c]\<rparr>))"

definition setUploadProgress :: "UploadProgress option \<Rightarrow> 'r world \<Rightarrow> 'r world" where
  "setUploadProgress p w = w\<lparr>uploadProgress := p, trace := trace w @ [Progress p]\<rparr>"

definition setExistingStores :: "RagStore list \<Rightarrow> 'r world \<Rightarrow> 'r world" where
  "setExistingStores ss w = w\<lparr>existingStores := ss, trace := trace w @ [Cache ss]\<rparr>"

definition alert :: "string \<Rightarrow> 'r world \<Rightarrow> 'r world" where
  "alert m w = w\<lparr>trace := trace w @ [Alert m]\<rparr>"

subsection \<open>Strings\<close>

text \<open>The decimal rendering of a number in a template literal.\<close>

definition digit :: "nat \<Rightarrow> char" where
  "digit d = ''0123456789'' ! d"

fun string_of_nat :: "nat \<Rightarrow> string" where
  "string_of_nat n =
     (if n < 10 then [digit n] else string_of_nat (n div 10) @ [digit (n mod 10)])"

declare string_of_nat.simps [simp del]

text \<open>
  \<open>toLowerCase\<close> and \<open>includes\<close> (named \<open>includes_str\<close> here). A \<open>string\<close> is a list of
  8-bit characters, and the letters \<open>A\<close> to \<open>Z\<close> are the ones lower-cased: for an ASCII text
  this is what JavaScript does. JavaScript lower-cases other letters too (the Kelvin sign
  becomes \<open>k\<close>); an error text with such letters is outside this model of strings.
\<close>

definition lowerChar :: "char \<Rightarrow> char" where
  "lowerChar c =
     (if 65 \<le> (of_char c :: nat) \<and> (of_char c :: nat) \<le> 90
      then char_of ((of_char c :: nat) + 32) else c)"

definition toLowerCase :: "string \<Rightarrow> string" where
  "toLowerCase s = map lowerChar s"

fun startsWith :: "string \<Rightarrow> string \<Rightarrow> bool" where
  "startsWith s [] = True"
| "startsWith [] (p # ps) = False"
| "startsWith (c # cs) (p # ps) = (c = p \<and> startsWith cs ps)"

fun includes_str :: "string \<Rightarrow> string \<Rightarrow> bool" where
  "includes_str [] p = (p = [])"
| "includes_str (c # cs) p = (startsWith (c # cs) p \<or> includes_str cs p)"

section \<open>The session controller\<close>

subsection \<open>Errors\<close>

definition handleError :: "string \<Rightarrow> thrown \<Rightarrow> 'r world \<Rightarrow> 'r world" where
  "handleError msg err w =
     w\<lparr>error := Some (msg @ (if truthy err then '': '' @ errText err else '''')),
       status := Error\<rparr>"

definition clearError :: "'r world \<Rightarrow> 'r world" where
  "clearError w = w\<lparr>error := None, status := Welcome\<rparr>"

subsection \<open>Refreshing the library\<close>

text \<open>
  \<open>loadExistingStores\<close>. The \<open>status\<close> it tests in its \<open>finally\<close> block is the one of the
  render that created the closure, passed here as \<open>rendered\<close>.
\<close>

definition loadExistingStores :: "'r gateway \<Rightarrow> AppStatus \<Rightarrow> 'r world \<Rightarrow> 'r world" where
  "loadExistingStores gw rendered w =
     (let w1 = w\<lparr>isLoadingStores := True\<rparr>;
          w2 = w1\<lparr>libraryError := None\<rparr>;
          w4 = (case call ListRagStores (listRagStores gw) w2 of
                  (Inr stores, w3) \<Rightarrow> setExistingStores stores w3
                | (Inl err, w3) \<Rightarrow>
                    w3\<lparr>libraryError :=
                         Some ''Failed to load your library. Please check your network or API key.''\<rparr>);
          w5 = w4\<lparr>isLoadingStores := False\<rparr>
      in if rendered = Initializing then w5\<lparr>status := Welcome\<rparr> else w5)"

subsection \<open>Creating a store from the staged files\<close>

definition friendlyName :: "'r gateway \<Rightarrow> File list \<Rightarrow> string" where
  "friendlyName gw fs =
     (if length fs = 1 then file_name (fs ! 0)
      else if length fs > 1
        then file_name (fs ! 0) @ '' + '' @ string_of_nat (length fs - 1) @ '' others''
      else ''Session '' @ localeDate gw @ '' '' @ localeTime gw)"

definition fileLabel :: "File list \<Rightarrow> nat \<Rightarrow> string" where
  "fileLabel fs i =
     ''('' @ string_of_nat (i + 1) @ ''/'' @ string_of_nat (length fs) @ '') ''
       @ file_name (fs ! i)"

text \<open>
  The functional update of the upload loop, \<open>prev => ({...prev!, current: i + 1, ...})\<close>.
  \<open>prev\<close> is never \<open>null\<close> there: the progress was set just before the loop.
\<close>

definition loopProgress :: "File list \<Rightarrow> nat \<Rightarrow> UploadProgress option \<Rightarrow> UploadProgress option" where
  "loopProgress fs i prev =
     map_option (\<lambda>p. p\<lparr>current := i + 1,
                       message := Some ''Generating embeddings...'',
                       fileName := Some (fileLabel fs i)\<rparr>) prev"

text \<open>\<open>for (let i = 0; i < files.length; i++)\<close>, from index \<open>i\<close> on.\<close>

function uploadLoop ::
  "'r gateway \<Rightarrow> string \<Rightarrow> File list \<Rightarrow> nat \<Rightarrow> 'r world \<Rightarrow> (thrown + unit) \<times> 'r world" where
  "uploadLoop gw ragStoreName fs i w =
     (if i < length fs then
        (case call (UploadToRagStore ragStoreName (fs ! i))
                (uploadToRagStore gw ragStoreName (fs ! i))
                (setUploadProgress (loopProgress fs i (uploadProgress w)) w) of
           (Inl err, w') \<Rightarrow> (Inl err, w')
         | (Inr u, w') \<Rightarrow> uploadLoop gw ragStoreName fs (i + 1) w')
      else (Inr (), w))"
  by pat_completeness auto
termination
  by (relation "measure (\<lambda>(gw, ragStoreName, fs, i, w). length fs - i)") auto

declare uploadLoop.simps [simp del]

text \<open>
  The \<open>try\<close> block of \<open>handleUploadAndStartChat\<close>; \<open>fs\<close> is the rendered \<open>files\<close>. The pause
  of 800 ms after the last progress update changes nothing in the state.
\<close>

definition uploadTry :: "'r gateway \<Rightarrow> File list \<Rightarrow> 'r world \<Rightarrow> (thrown + unit) \<times> 'r world" where
  "uploadTry gw fs w =
     (let totalSteps = length fs + 2 in
      case call (CreateRagStore (friendlyName gw fs)) (createRagStore gw (friendlyName gw fs)) w of
        (Inl err, w1) \<Rightarrow> (Inl err, w1)
      | (Inr ragStoreName, w1) \<Rightarrow>
          (case uploadLoop gw ragStoreName fs 0
                  (setUploadProgress
                     (Some \<lparr>current = 1, total_steps = totalSteps,
                            message = Some ''Generating embeddings...'', fileName = None\<rparr>) w1) of
             (Inl err, w2) \<Rightarrow> (Inl err, w2)
           | (Inr u, w2) \<Rightarrow>
               (let w3 = setUploadProgress
                           (Some \<lparr>current = length fs + 1, total_steps = totalSteps,
                                  message = Some ''Registered! updating library...'',
                                  fileName = Some ''''\<rparr>) w2;
                    newStore = \<lparr>name = ragStoreName, displayName = friendlyName gw fs\<rparr>;
                    w4 = setExistingStores (newStore # existingStores w3) w3;
                    w5 = w4\<lparr>files := []\<rparr>
                in (Inr (), w5\<lparr>status := Welcome\<rparr>))))"

text \<open>The \<open>catch\<close> block.\<close>

definition uploadCatch :: "thrown \<Rightarrow> 'r world \<Rightarrow> 'r world" where
  "uploadCatch err w =
     (let errorMessage = toLowerCase (errText err) in
      if includes_str errorMessage ''api key not valid''
         \<or> includes_str errorMessage ''requested entity was not found''
      then w\<lparr>apiKeyError :=
               Some ''The selected API key is invalid. Please select a different one and try again.'',
             isApiKeySelected := False,
             status := Welcome\<rparr>
      else handleError ''Failed to upload files'' err w)"

definition handleUploadAndStartChat :: "'r gateway \<Rightarrow> 'r world \<Rightarrow> (thrown + unit) \<times> 'r world" where
  "handleUploadAndStartChat gw w =
     (if \<not> isApiKeySelected w then
        (Inl (ErrorObj ''API Key is required.''),
         w\<lparr>apiKeyError := Some ''Please select your Gemini API Key first.''\<rparr>)
      else if length (files w) = 0 then (Inr (), w)
      else
        (let w1 = w\<lparr>apiKeyError := None\<rparr>;
             w2 = w1\<lparr>status := Uploading\<rparr>;
             w3 = setUploadProgress
                    (Some \<lparr>current = 0, total_steps = length (files w) + 2,
                           message = Some ''Creating document index...'', fileName = None\<rparr>) w2
         in case uploadTry gw (files w) w3 of
              (Inr u, w4) \<Rightarrow> (Inr u, setUploadProgress None w4)
            | (Inl err, w4) \<Rightarrow> (Inl err, setUploadProgress None (uploadCatch err w4))))"

subsection \<open>Selecting an existing store\<close>

definition handleSelectExistingStore :: "'r gateway \<Rightarrow> RagStore \<Rightarrow> 'r world \<Rightarrow> 'r world" where
  "handleSelectExistingStore gw store w =
     (let w1 = w\<lparr>apiKeyError := None\<rparr>;
          w2 = w1\<lparr>status := Uploading\<rparr>;
          w3 = setUploadProgress
                 (Some \<lparr>current = 1, total_steps = 1,
                        message = Some ''Loading existing session...'', fileName = None\<rparr>) w2;
          w4 = w3\<lparr>activeRagStoreName := Some (name store)\<rparr>;
          w5 = w4\<lparr>documentName := displayName store\<rparr>;
          w9 = (case call (GenerateExampleQuestions (name store))
                       (generateExampleQuestions gw (name store)) w5 of
                  (Inr questions, w6) \<Rightarrow>
                    (let w7 = w6\<lparr>exampleQuestions := questions\<rparr>;
                         w8 = w7\<lparr>chatHistory := []\<rparr>
                     in w8\<lparr>status := Chatting\<rparr>)
                | (Inl err, w6) \<Rightarrow> handleError ''Failed to load existing session'' err w6)
      in setUploadProgress None w9)"

subsection \<open>Deleting a store\<close>

text \<open>
  \<open>handleDeleteStore\<close>. The refresh it starts is not awaited; the model runs it to its end
  before the next action. A functional update \<open>prev => ...\<close> reads the state at that point.
\<close>

definition handleDeleteStore :: "'r gateway \<Rightarrow> string \<Rightarrow> 'r world \<Rightarrow> 'r world" where
  "handleDeleteStore gw storeName w =
     (case call (DeleteRagStore storeName) (deleteRagStore gw storeName) w of
        (Inr u, w1) \<Rightarrow>
          loadExistingStores gw (status w)
            (setExistingStores (filter (\<lambda>s. name s \<noteq> storeName) (existingStores w1)) w1)
      | (Inl err, w1) \<Rightarrow> alert ''Failed to delete the document set.'' w1)"

definition handleDeleteFile :: "'r gateway \<Rightarrow> string \<Rightarrow> 'r world \<Rightarrow> (thrown + unit) \<times> 'r world" where
  "handleDeleteFile gw fname w = call (DeleteFile fname) (deleteFile gw fname) w"

subsection \<open>Chat\<close>

text \<open>\<open>handleEndChat\<close>; its refresh is not awaited either and runs to its end here.\<close>

definition handleEndChat :: "'r gateway \<Rightarrow> 'r world \<Rightarrow> 'r world" where
  "handleEndChat gw w =
     (let w1 = w\<lparr>activeRagStoreName := None\<rparr>;
          w2 = w1\<lparr>chatHistory := []\<rparr>;
          w3 = w2\<lparr>exampleQuestions := []\<rparr>;
          w4 = w3\<lparr>documentName := ''''\<rparr>;
          w5 = w4\<lparr>files := []\<rparr>;
          w6 = w5\<lparr>status := Welcome\<rparr>
      in loadExistingStores gw (status w) w6)"

definition userMessage :: "string \<Rightarrow> ChatMessage" where
  "userMessage msg = \<lparr>role = User, parts = [msg], groundingChunks = None\<rparr>"

definition modelMessage :: "QueryResult \<Rightarrow> ChatMessage" where
  "modelMessage result =
     \<lparr>role = Model, parts = [result_text result],
      groundingChunks = Some (result_groundingChunks result)\<rparr>"

definition errorMessage :: ChatMessage where
  "errorMessage =
     \<lparr>role = Model, parts = [''Sorry, I encountered an error. Please try again.''],
      groundingChunks = None\<rparr>"

text \<open>\<open>!activeRagStoreName\<close> holds for \<open>null\<close> and for the empty string.\<close>

definition handleSendMessage :: "'r gateway \<Rightarrow> string \<Rightarrow> 'r world \<Rightarrow> 'r world" where
  "handleSendMessage gw msg w =
     (case activeRagStoreName w of
        None \<Rightarrow> w
      | Some store \<Rightarrow>
          if store = '''' then w
          else
            (let w1 = w\<lparr>chatHistory := chatHistory w @ [userMessage msg]\<rparr>;
                 w2 = w1\<lparr>isQueryLoading := True\<rparr>;
                 w4 = (case call (FileSearch store msg) (fileSearch gw store msg) w2 of
                         (Inr result, w3) \<Rightarrow>
                           w3\<lparr>chatHistory := chatHistory w3 @ [modelMessage result]\<rparr>
                       | (Inl err, w3) \<Rightarrow>
                           handleError ''Failed to get response'' err
                             (w3\<lparr>chatHistory := chatHistory w3 @ [errorMessage]\<rparr>))
             in w4\<lparr>isQueryLoading := False\<rparr>))"

section \<open>The gateway's document listing\<close>

text \<open>
  A value of a response of the remote SDK. An object is the list of its own properties
  in the order of \<open>Object.keys\<close>. Numbers are integers here: the code tests them for
  truthiness only.
\<close>

datatype jsval =
    JUndefined
  | JNull
  | JBool bool
  | JNum int
  | JStr string
  | JArr "jsval list"
  | JObj "(string \<times> jsval) list"

fun falsy :: "jsval \<Rightarrow> bool" where
  "falsy JUndefined = True"
| "falsy JNull = True"
| "falsy (JBool b) = (\<not> b)"
| "falsy (JNum n) = (n = 0)"
| "falsy (JStr s) = (s = '''')"
| "falsy (JArr xs) = False"
| "falsy (JObj kvs) = False"

fun isArray :: "jsval \<Rightarrow> bool" where
  "isArray (JArr xs) = True"
| "isArray v = False"

fun elements :: "jsval \<Rightarrow> jsval list" where
  "elements (JArr xs) = xs"
| "elements v = []"

text \<open>
  Reading one of the property names the service uses (\<open>name\<close>, \<open>displayName\<close>,
  \<open>display_name\<close>, \<open>files\<close>, ...): a \<open>TypeError\<close> (\<open>None\<close>) on \<open>null\<close> and \<open>undefined\<close>,
  the property of an object, and \<open>undefined\<close> on every other value, which has no such property.
\<close>

fun getProp :: "jsval \<Rightarrow> string \<Rightarrow> jsval option" where
  "getProp JUndefined k = None"
| "getProp JNull k = None"
| "getProp (JObj kvs) k = (case map_of kvs k of Some v \<Rightarrow> Some v | None \<Rightarrow> Some JUndefined)"
| "getProp v k = Some JUndefined"

text \<open>\<open>a || b\<close>\<close>

definition js_or :: "jsval \<Rightarrow> jsval \<Rightarrow> jsval" where
  "js_or a b = (if falsy a then b else a)"

text \<open>The loop over \<open>Object.keys(response)\<close> of \<open>findArrayInResponse\<close>.\<close>

fun firstArray :: "(string \<times> jsval) list \<Rightarrow> jsval list" where
  "firstArray [] = []"
| "firstArray ((k, v) # kvs) = (if isArray v then elements v else firstArray kvs)"

definition knownKey :: "jsval \<Rightarrow> string \<Rightarrow> bool" where
  "knownKey response k = (case getProp response k of Some v \<Rightarrow> isArray v | None \<Rightarrow> False)"

definition knownArray :: "jsval \<Rightarrow> string \<Rightarrow> jsval list" where
  "knownArray response k = (case getProp response k of Some v \<Rightarrow> elements v | None \<Rightarrow> [])"

definition findArrayInResponse :: "jsval \<Rightarrow> jsval list" where
  "findArrayInResponse response =
     (if falsy response then []
      else if isArray response then elements response
      else if knownKey response ''fileSearchStores'' then knownArray response ''fileSearchStores''
      else if knownKey response ''file_search_stores'' then knownArray response ''file_search_stores''
      else if knownKey response ''files'' then knownArray response ''files''
      else (case response of JObj kvs \<Rightarrow> firstArray kvs | _ \<Rightarrow> []))"

type_synonym CustomMetadata = "string \<times> string"

text \<open>A listed document: \<open>name\<close> and \<open>displayName\<close> are whatever the response holds.\<close>

record Document =
  doc_name :: jsval
  doc_displayName :: jsval
  customMetadata :: "CustomMetadata list"

text \<open>
  The module variable \<open>ai\<close> is set or not; \<open>initialize\<close> sets it when the environment has
  an API key. \<open>ensureInitialized\<close> gives the new value of \<open>ai\<close> or throws.
\<close>

definition initialize :: "bool \<Rightarrow> bool \<Rightarrow> bool" where
  "initialize apiKey ai = (if apiKey then True else ai)"

definition ensureInitialized :: "bool \<Rightarrow> bool \<Rightarrow> thrown + bool" where
  "ensureInitialized apiKey ai =
     (if \<not> ai then
        (if \<not> initialize apiKey ai
         then Inl (ErrorObj ''Gemini AI client not initialized. Please wait for the API key to load.'')
         else Inr (initialize apiKey ai))
      else Inr ai)"

definition typeError :: thrown where
  "typeError = ErrorObj ''Cannot read properties of undefined''"

text \<open>The callback of \<open>files.map\<close> in \<open>listDocuments\<close>.\<close>

definition toDocument :: "jsval \<Rightarrow> thrown + Document" where
  "toDocument f =
     (case (getProp f ''name'', getProp f ''displayName'', getProp f ''display_name'') of
        (Some n, Some d1, Some d2) \<Rightarrow>
          Inr \<lparr>doc_name = n,
               doc_displayName = js_or (js_or d1 d2) (JStr ''Untitled Document''),
               customMetadata = []\<rparr>
      | _ \<Rightarrow> Inl typeError)"

fun mapDocuments :: "jsval list \<Rightarrow> thrown + Document list" where
  "mapDocuments [] = Inr []"
| "mapDocuments (f # fs) =
     (case toDocument f of
        Inl err \<Rightarrow> Inl err
      | Inr d \<Rightarrow> (case mapDocuments fs of Inl err \<Rightarrow> Inl err | Inr ds \<Rightarrow> Inr (d # ds)))"

text \<open>
  \<open>listDocuments\<close>; \<open>listFiles\<close> is the SDK call \<open>ai.fileSearchStores.listFiles\<close> with
  \<open>pageSize: 100\<close>, resolving to a response or rejecting.
\<close>

definition listDocuments ::
  "bool \<Rightarrow> bool \<Rightarrow> (string \<Rightarrow> thrown + jsval) \<Rightarrow> string \<Rightarrow> thrown + Document list" where
  "listDocuments apiKey ai listFiles ragStoreName =
     (case ensureInitialized apiKey ai of
        Inl err \<Rightarrow> Inl err
      | Inr ai' \<Rightarrow>
          (case listFiles ragStoreName of
             Inl err \<Rightarrow> Inl err
           | Inr response \<Rightarrow> mapDocuments (findArrayInResponse response)))"

section \<open>The confirmation dialog of the welcome screen\<close>

text \<open>
  The part of the state of \<open>WelcomeScreen\<close> that \<open>executeDelete\<close> reads and writes, with the
  session it is rendered in. The target of a confirmation is a store or a file.
\<close>

datatype ConfirmType = StoreTarget | FileTarget

record ConfirmState =
  isOpen :: bool
  confirmType :: ConfirmType
  targetId :: string
  confirmDisplayName :: string

record 'r screen =
  confirmState :: ConfirmState
  managingStore :: "RagStore option"
  storeDocuments :: "Document list"
  session :: "'r world"

text \<open>
  \<open>executeDelete\<close>, the action of the dialog's confirm button. For a store it hands the
  target to \<open>onDeleteStore\<close>, which is \<open>handleDeleteStore\<close>; for a file it removes the
  document from the list at once and puts the former list back when the remote call fails.
\<close>

definition executeDelete :: "'r gateway \<Rightarrow> 'r screen \<Rightarrow> 'r screen" where
  "executeDelete gw sc =
     (let sc1 = sc\<lparr>confirmState := (confirmState sc)\<lparr>isOpen := False\<rparr>\<rparr> in
      case confirmType (confirmState sc) of
        StoreTarget \<Rightarrow>
          sc1\<lparr>session := handleDeleteStore gw (targetId (confirmState sc)) (session sc1)\<rparr>
      | FileTarget \<Rightarrow>
          (case managingStore sc of
             None \<Rightarrow> sc1
           | Some store \<Rightarrow>
               (let prevDocs = storeDocuments sc;
                    sc2 = sc1\<lparr>storeDocuments :=
                                filter (\<lambda>d. doc_name d \<noteq> JStr (targetId (confirmState sc)))
                                  (storeDocuments sc1)\<rparr>
                in case handleDeleteFile gw (targetId (confirmState sc)) (session sc2) of
                     (Inr u, w') \<Rightarrow> sc2\<lparr>session := w'\<rparr>
                   | (Inl err, w') \<Rightarrow> sc2\<lparr>session := w', storeDocuments := prevDocs\<rparr>)))"

section \<open>Observations on a run\<close>

text \<open>The state of the hooks when the component mounts.\<close>

definition initialWorld :: "'r \<Rightarrow> 'r world" where
  "initialWorld r =
     \<lparr>status = Initializing, isApiKeySelected = False, apiKeyError = None, error = None,
      uploadProgress = None, activeRagStoreName = None, chatHistory = [],
      isQueryLoading = False, exampleQuestions = [], documentName = '''', files = [],
      existingStores = [], isLoadingStores = False, libraryError = None,
      remote = r, trace = []\<rparr>"

text \<open>The effects a handler added to the trace on its way from \<open>w\<close> to \<open>w'\<close>.\<close>

definition produced :: "'r world \<Rightarrow> 'r world \<Rightarrow> event list" where
  "produced w w' = drop (length (trace w)) (trace w')"

text \<open>The progress records the trace shows, in order; a clearing update shows none.\<close>

fun progressValues :: "event list \<Rightarrow> UploadProgress list" where
  "progressValues [] = []"
| "progressValues (Progress (Some p) # es) = p # progressValues es"
| "progressValues (e # es) = progressValues es"

text \<open>
  What the remote service answers when the files of a list are uploaded to a store one
  after the other, up to the first rejection.
\<close>

fun remoteUploads :: "'r gateway \<Rightarrow> string \<Rightarrow> File list \<Rightarrow> 'r \<Rightarrow> (thrown + unit) \<times> 'r" where
  "remoteUploads gw rs [] r = (Inr (), r)"
| "remoteUploads gw rs (f # fs) r =
     (case uploadToRagStore gw rs f r of
        (Inl err, r') \<Rightarrow> (Inl err, r')
      | (Inr u, r') \<Rightarrow> remoteUploads gw rs fs r')"

text \<open>The two effects of one round of the upload loop, and the three before the loop.\<close>

definition loopEvents :: "string \<Rightarrow> File list \<Rightarrow> UploadProgress \<Rightarrow> nat \<Rightarrow> event list" where
  "loopEvents rs fs p j =
     [Progress (Some (p\<lparr>current := j + 1, message := Some ''Generating embeddings...'',
                        fileName := Some (fileLabel fs j)\<rparr>)),
      Remote (UploadToRagStore rs (fs ! j))]"

definition createEvents :: "'r gateway \<Rightarrow> File list \<Rightarrow> event list" where
  "createEvents gw fs =
     [Progress (Some \<lparr>current = 0, total_steps = length fs + 2,
                      message = Some ''Creating document index...'', fileName = None\<rparr>),
      Remote (CreateRagStore (friendlyName gw fs)),
      Progress (Some \<lparr>current = 1, total_steps = length fs + 2,
                      message = Some ''Generating embeddings...'', fileName = None\<rparr>)]"

subsection \<open>A small remote service and sessions on it\<close>

text \<open>
  An in-memory service whose state is its list of stores. It names every new store
  \<open>store/42\<close>, rejects the upload of a file called \<open>broken.pdf\<close> and the deletion of a
  store it does not have, and answers everything else.
\<close>

definition demoGateway :: "RagStore list gateway" where
  "demoGateway =
     \<lparr>createRagStore = (\<lambda>dn r. (Inr ''store/42'', \<lparr>name = ''store/42'', displayName = dn\<rparr> # r)),
      listRagStores = (\<lambda>r. (Inr r, r)),
      uploadToRagStore = (\<lambda>rs f r.
         if file_name f = ''broken.pdf'' then (Inl (ErrorObj ''upload rejected''), r)
         else (Inr (), r)),
      deleteRagStore = (\<lambda>n r.
         if n \<in> set (map name r) then (Inr (), filter (\<lambda>s. name s \<noteq> n) r)
         else (Inl (ErrorObj ''no such store''), r)),
      deleteFile = (\<lambda>n r. (Inr (), r)),
      fileSearch = (\<lambda>rs q r.
         (Inr \<lparr>result_text = ''See section 3.'',
               result_groundingChunks = [''manual.pdf, page 12'']\<rparr>, r)),
      generateExampleQuestions = (\<lambda>rs r.
         (Inr [''How do I reset it?'', ''What is the warranty?''], r)),
      localeDate = ''11/3/2026'',
      localeTime = ''10:00:00 AM''\<rparr>"

text \<open>The same service out of reach: listing the stores and querying are rejected.\<close>

definition offlineGateway :: "RagStore list gateway" where
  "offlineGateway =
     demoGateway
       \<lparr>listRagStores := (\<lambda>r. (Inl (ErrorObj ''network error''), r)),
        fileSearch := (\<lambda>rs q r. (Inl (ErrorObj ''network error''), r))\<rparr>"

text \<open>
  The same service behind a client that was never initialised: \<open>generateExampleQuestions\<close>
  throws what \<open>ensureInitialized\<close> throws, before its own \<open>try\<close> block.
\<close>

definition uninitializedGateway :: "RagStore list gateway" where
  "uninitializedGateway =
     demoGateway
       \<lparr>generateExampleQuestions := (\<lambda>rs r.
          (Inl (ErrorObj ''Gemini AI client not initialized. Please wait for the API key to load.''),
           r))\<rparr>"

definition manualPdf :: File where
  "manualPdf = \<lparr>file_name = ''manual.pdf'', file_bytes = ''%PDF-1.7''\<rparr>"

definition notesTxt :: File where
  "notesTxt = \<lparr>file_name = ''notes.txt'', file_bytes = ''to do''\<rparr>"

definition brokenPdf :: File where
  "brokenPdf = \<lparr>file_name = ''broken.pdf'', file_bytes = ''''\<rparr>"

definition store7 :: RagStore where
  "store7 = \<lparr>name = ''store/7'', displayName = ''Washer manual''\<rparr>"

text \<open>On the welcome screen with a credential, the library holding the stores \<open>ss\<close>.\<close>

definition welcomeWorld :: "RagStore list \<Rightarrow> RagStore list \<Rightarrow> RagStore list world" where
  "welcomeWorld ss r = (initialWorld r)\<lparr>status := Welcome, isApiKeySelected := True, existingStores := ss\<rparr>"

text \<open>Chatting with \<open>store/7\<close>: the store selected on the welcome screen, one message sent.\<close>

definition chattingWorld :: "RagStore list world" where
  "chattingWorld =
     handleSendMessage demoGateway ''Hello''
       (handleSelectExistingStore demoGateway store7 (welcomeWorld [store7] [store7]))"

text \<open>On the welcome screen with a credential and the files \<open>fs\<close> staged.\<close>

definition stagedWorld :: "File list \<Rightarrow> RagStore list world" where
  "stagedWorld fs = (welcomeWorld [] [])\<lparr>files := fs\<rparr>"

text \<open>
  A listing of the files of \<open>store/7\<close> as the SDK may answer it: the array sits under a key
  the service does not know, the first document has no display name, the second one has a
  snake-case one and metadata.
\<close>

definition demoListFiles :: "string \<Rightarrow> thrown + jsval" where
  "demoListFiles store =
     (if store = ''store/7''
      then Inr (JObj [(''nextPageToken'', JStr ''''),
                      (''documents'',
                       JArr [JObj [(''name'', JStr ''documents/a'')],
                             JObj [(''name'', JStr ''documents/b''),
                                   (''display_name'', JStr ''b.pdf''),
                                   (''customMetadata'',
                                    JArr [JObj [(''key'', JStr ''author''),
                                                (''stringValue'', JStr ''LG'')]])]])])
      else Inl (ErrorObj ''store not found''))"

text \<open>The dialog asking to confirm the deletion of \<open>store/7\<close>, which the service has not.\<close>

definition confirmStore7 :: "RagStore list screen" where
  "confirmStore7 =
     \<lparr>confirmState = \<lparr>isOpen = True, confirmType = StoreTarget, targetId = ''store/7'',
                        confirmDisplayName = ''Washer manual''\<rparr>,
      managingStore = None, storeDocuments = [],
      session = welcomeWorld [store7] []\<rparr>"

section \<open>Properties\<close>

subsection \<open>The upload loop\<close>

lemma uploadLoop_done: "\<not> i < length fs \<Longrightarrow> uploadLoop gw rs fs i w = (Inr (), w)"
  by (subst uploadLoop.simps) simp

lemma uploadLoop_step:
  "i < length fs \<Longrightarrow>
   uploadLoop gw rs fs i w =
     (case call (UploadToRagStore rs (fs ! i)) (uploadToRagStore gw rs (fs ! i))
             (setUploadProgress (loopProgress fs i (uploadProgress w)) w) of
        (Inl err, w') \<Rightarrow> (Inl err, w')
      | (Inr u, w') \<Rightarrow> uploadLoop gw rs fs (i + 1) w')"
  by (subst uploadLoop.simps) simp

lemma uploadLoop_frame:
  "uploadLoop gw rs fs i w = (res, w') \<Longrightarrow>
   \<exists>up r t. w' = w\<lparr>uploadProgress := up, remote := r, trace := t\<rparr>"
proof (induction "length fs - i" arbitrary: i w)
  case 0
  then have "w' = w\<lparr>uploadProgress := uploadProgress w, remote := remote w, trace := trace w\<rparr>"
    by (simp add: uploadLoop_done)
  then show ?case by blast
next
  case (Suc n)
  then have lt: "i < length fs" by simp
  obtain x w1 where c: "call (UploadToRagStore rs (fs ! i)) (uploadToRagStore gw rs (fs ! i))
             (setUploadProgress (loopProgress fs i (uploadProgress w)) w) = (x, w1)"
    by (cases "call (UploadToRagStore rs (fs ! i)) (uploadToRagStore gw rs (fs ! i))
             (setUploadProgress (loopProgress fs i (uploadProgress w)) w)")
  obtain up1 r1 t1 where w1: "w1 = w\<lparr>uploadProgress := up1, remote := r1, trace := t1\<rparr>"
    using c by (auto simp: call_def setUploadProgress_def split: prod.splits)
  show ?case
  proof (cases x)
    case (Inl e)
    with c Suc.prems lt have "w' = w1" by (simp add: uploadLoop_step)
    with w1 show ?thesis by blast
  next
    case (Inr u)
    with c Suc.prems lt have r: "uploadLoop gw rs fs (i + 1) w1 = (res, w')" by (simp add: uploadLoop_step)
    have "n = length fs - (i + 1)" using Suc.hyps(2) by simp
    from Suc.hyps(1)[OF this r] obtain up r t where "w' = w1\<lparr>uploadProgress := up, remote := r, trace := t\<rparr>"
      by blast
    then have "w' = w\<lparr>uploadProgress := up, remote := r, trace := t\<rparr>" by (simp add: w1)
    then show ?thesis by blast
  qed
qed

lemma remoteUploads_append:
  "remoteUploads gw rs (xs @ ys) r =
     (case remoteUploads gw rs xs r of
        (Inl err, r') \<Rightarrow> (Inl err, r')
      | (Inr u, r') \<Rightarrow> remoteUploads gw rs ys r')"
  by (induction xs arbitrary: r) (auto split: prod.splits sum.splits)

lemma remoteUploads_fails_at:
  assumes "k < length fs"
    and "remoteUploads gw rid (take k fs) r1 = (Inr (), rk)"
    and "uploadToRagStore gw rid (fs ! k) rk = (Inl e, r')"
  shows "remoteUploads gw rid fs r1 = (Inl e, r')"
proof -
  have "fs = take k fs @ fs ! k # drop (Suc k) fs"
    using assms(1) by (rule id_take_nth_drop)
  then have "remoteUploads gw rid fs r1 = remoteUploads gw rid (take k fs @ fs ! k # drop (Suc k) fs) r1"
    by simp
  also have "\<dots> = (Inl e, r')"
    using assms(2,3) by (simp add: remoteUploads_append)
  finally show ?thesis .
qed

lemma uploadLoop_result:
  "fst (uploadLoop gw rs fs i w) = fst (remoteUploads gw rs (drop i fs) (remote w))"
proof (induction "length fs - i" arbitrary: i w)
  case 0
  then show ?case by (simp add: uploadLoop_done)
next
  case (Suc n)
  then have lt: "i < length fs" by simp
  then have d: "drop i fs = fs ! i # drop (i + 1) fs" by (simp add: Cons_nth_drop_Suc)
  obtain x r1 where u: "uploadToRagStore gw rs (fs ! i) (remote w) = (x, r1)"
    by (cases "uploadToRagStore gw rs (fs ! i) (remote w)")
  define w1 where "w1 = snd (call (UploadToRagStore rs (fs ! i)) (uploadToRagStore gw rs (fs ! i))
             (setUploadProgress (loopProgress fs i (uploadProgress w)) w))"
  have c: "call (UploadToRagStore rs (fs ! i)) (uploadToRagStore gw rs (fs ! i))
             (setUploadProgress (loopProgress fs i (uploadProgress w)) w) = (x, w1)"
    and r: "remote w1 = r1"
    using u by (simp_all add: call_def setUploadProgress_def w1_def)
  have n: "n = length fs - (i + 1)" using Suc.hyps(2) by simp
  show ?case
  proof (cases x)
    case (Inl e)
    then show ?thesis unfolding d using lt c u by (simp add: uploadLoop_step)
  next
    case (Inr v)
    then show ?thesis unfolding d using lt c u r Suc.hyps(1)[OF n, of w1] by (simp add: uploadLoop_step)
  qed
qed

lemma uploadLoop_success:
  "remoteUploads gw rs (drop i fs) (remote w) = (Inr (), r2) \<Longrightarrow>
   uploadProgress w = Some p \<Longrightarrow>
   uploadLoop gw rs fs i w =
     (Inr (),
      w\<lparr>uploadProgress :=
          (if i < length fs
           then Some (p\<lparr>current := length fs, message := Some ''Generating embeddings...'',
                        fileName := Some (fileLabel fs (length fs - 1))\<rparr>)
           else Some p),
        remote := r2,
        trace := trace w @ concat (map (loopEvents rs fs p) [i..<length fs])\<rparr>)"
proof (induction "length fs - i" arbitrary: i w p)
  case 0
  then show ?case by (simp add: uploadLoop_done)
next
  case (Suc n)
  then have lt: "i < length fs" by simp
  then have d: "drop i fs = fs ! i # drop (i + 1) fs" by (simp add: Cons_nth_drop_Suc)
  obtain x r1 where u: "uploadToRagStore gw rs (fs ! i) (remote w) = (x, r1)"
    by (cases "uploadToRagStore gw rs (fs ! i) (remote w)")
  from Suc.prems(1) have "remoteUploads gw rs (fs ! i # drop (i + 1) fs) (remote w) = (Inr (), r2)"
    by (simp only: d)
  with u have x: "x = Inr ()" and rest: "remoteUploads gw rs (drop (i + 1) fs) r1 = (Inr (), r2)"
    by (simp_all only: remoteUploads.simps split: sum.splits prod.splits) auto
  define p' where "p' = p\<lparr>current := i + 1, message := Some ''Generating embeddings...'',
                        fileName := Some (fileLabel fs i)\<rparr>"
  define w1 where "w1 = w\<lparr>uploadProgress := Some p', remote := r1, trace := trace w @ loopEvents rs fs p i\<rparr>"
  have c: "call (UploadToRagStore rs (fs ! i)) (uploadToRagStore gw rs (fs ! i))
             (setUploadProgress (loopProgress fs i (uploadProgress w)) w) = (Inr (), w1)"
    using u x Suc.prems(2) by (simp add: call_def setUploadProgress_def loopProgress_def w1_def p'_def loopEvents_def)
  have n: "n = length fs - (i + 1)" using Suc.hyps(2) by simp
  have r1: "remoteUploads gw rs (drop (i + 1) fs) (remote w1) = (Inr (), r2)" using rest by (simp add: w1_def)
  have up: "uploadProgress w1 = Some p'" by (simp add: w1_def)
  have ev: "loopEvents rs fs p' = loopEvents rs fs p" by (rule ext) (simp add: loopEvents_def p'_def)
  have iv: "[i..<length fs] = i # [i + 1..<length fs]" using lt by (simp add: upt_conv_Cons)
  have "uploadLoop gw rs fs i w = uploadLoop gw rs fs (i + 1) w1"
    using lt c by (simp add: uploadLoop_step)
  also note Suc.hyps(1)[OF n r1 up]
  finally have step: "uploadLoop gw rs fs i w =
     (Inr (),
      w1\<lparr>uploadProgress :=
          (if i + 1 < length fs
           then Some (p'\<lparr>current := length fs, message := Some ''Generating embeddings...'',
                        fileName := Some (fileLabel fs (length fs - 1))\<rparr>)
           else Some p'),
        remote := r2,
        trace := trace w1 @ concat (map (loopEvents rs fs p') [i + 1..<length fs])\<rparr>)" .
  show ?case
  proof (cases "i + 1 < length fs")
    case True
    have e1: "trace w1 = trace w @ loopEvents rs fs p i" by (simp add: w1_def)
    have e2: "concat (map (loopEvents rs fs p) [i..<length fs]) = loopEvents rs fs p i @ concat (map (loopEvents rs fs p) [i + 1..<length fs])"
      by (subst iv) simp
    have e3: "p'\<lparr>current := length fs, message := Some ''Generating embeddings...'',
                        fileName := Some (fileLabel fs (length fs - 1))\<rparr> = p\<lparr>current := length fs, message := Some ''Generating embeddings...'',
                        fileName := Some (fileLabel fs (length fs - 1))\<rparr>" by (simp add: p'_def)
    show ?thesis unfolding step e2 ev e3 using lt True by (simp add: w1_def)
  next
    case False
    with lt have "length fs = i + 1" by simp
    then have e2: "[i..<length fs] = [i]" "[i + 1..<length fs] = []" by simp_all
    show ?thesis unfolding step e2 using lt False by (simp add: w1_def p'_def \<open>length fs = i + 1\<close>)
  qed
qed

subsection \<open>A run of the create-store transition\<close>

lemma handleUpload_success:
  assumes sel: "isApiKeySelected w" and ne: "files w \<noteq> []"
    and cr: "createRagStore gw (friendlyName gw (files w)) (remote w) = (Inr rid, r1)"
    and ups: "remoteUploads gw rid (files w) r1 = (Inr (), r2)"
  shows "handleUploadAndStartChat gw w =
     (Inr (),
      w\<lparr>status := Welcome, apiKeyError := None, uploadProgress := None, files := [],
        existingStores := \<lparr>name = rid, displayName = friendlyName gw (files w)\<rparr> # existingStores w,
        remote := r2,
        trace := trace w @ createEvents gw (files w)
           @ concat (map (loopEvents rid (files w)
                 \<lparr>current = 1, total_steps = length (files w) + 2,
                      message = Some ''Generating embeddings...'', fileName = None\<rparr>) [0..<length (files w)])
           @ [Progress (Some \<lparr>current = length (files w) + 1, total_steps = length (files w) + 2,
                      message = Some ''Registered! updating library...'', fileName = Some ''''\<rparr>),
              Cache (\<lparr>name = rid, displayName = friendlyName gw (files w)\<rparr> # existingStores w),
              Progress None]\<rparr>)"
proof -
  define fs where "fs = files w"
  define p1 where "p1 = \<lparr>current = 1, total_steps = length fs + 2,
                      message = Some ''Generating embeddings...'', fileName = None\<rparr>"
  define w3 where "w3 = setUploadProgress
                    (Some \<lparr>current = 0, total_steps = length fs + 2,
                           message = Some ''Creating document index...'', fileName = None\<rparr>)
                    (w\<lparr>apiKeyError := None, status := Uploading\<rparr>)"
  define w4 where "w4 = setUploadProgress (Some p1) (w3\<lparr>remote := r1, trace := trace w3 @ [Remote (CreateRagStore (friendlyName gw fs))]\<rparr>)"
  have c: "call (CreateRagStore (friendlyName gw fs)) (createRagStore gw (friendlyName gw fs)) w3 = (Inr rid, w3\<lparr>remote := r1, trace := trace w3 @ [Remote (CreateRagStore (friendlyName gw fs))]\<rparr>)"
    using cr by (simp add: call_def w3_def setUploadProgress_def fs_def)
  have "remoteUploads gw rid (drop 0 fs) (remote w4) = (Inr (), r2)"
    using ups by (simp add: w4_def setUploadProgress_def fs_def)
  moreover have "uploadProgress w4 = Some p1" by (simp add: w4_def setUploadProgress_def)
  ultimately have l: "uploadLoop gw rid fs 0 w4 = (Inr (),
      w4\<lparr>uploadProgress :=
          (if 0 < length fs
           then Some (p1\<lparr>current := length fs, message := Some ''Generating embeddings...'',
                        fileName := Some (fileLabel fs (length fs - 1))\<rparr>)
           else Some p1),
        remote := r2,
        trace := trace w4 @ concat (map (loopEvents rid fs p1) [0..<length fs])\<rparr>)"
    by (rule uploadLoop_success)
  have t: "uploadTry gw fs w3 = (Inr (), w4\<lparr>uploadProgress := Some \<lparr>current = length fs + 1, total_steps = length fs + 2,
                      message = Some ''Registered! updating library...'', fileName = Some ''''\<rparr>,
        remote := r2, files := [], status := Welcome,
        existingStores := \<lparr>name = rid, displayName = friendlyName gw fs\<rparr> # existingStores w,
        trace := trace w4 @ concat (map (loopEvents rid fs p1) [0..<length fs]) @ [Progress (Some \<lparr>current = length fs + 1, total_steps = length fs + 2,
                      message = Some ''Registered! updating library...'', fileName = Some ''''\<rparr>),
              Cache (\<lparr>name = rid, displayName = friendlyName gw fs\<rparr> # existingStores w)]\<rparr>)"
    unfolding uploadTry_def Let_def c
    apply (simp only: prod.case sum.case)
    apply (fold p1_def)
    apply (fold w4_def)
    apply (simp only: l prod.case sum.case)
    apply (simp add: setUploadProgress_def setExistingStores_def w4_def w3_def)
    done
  show ?thesis
    unfolding handleUploadAndStartChat_def Let_def
    using sel ne
    apply (simp only: if_False if_True not_True_eq_False length_0_conv)
    apply (fold fs_def)
    apply (fold w3_def)
    apply (simp only: t prod.case sum.case)
    apply (simp add: setUploadProgress_def w4_def w3_def createEvents_def p1_def)
    done
qed

lemma uploadTry_failure_frame:
  assumes "uploadTry gw fs w = (Inl e, w')"
  shows "\<exists>up r t. w' = w\<lparr>uploadProgress := up, remote := r, trace := t\<rparr>"
proof -
  obtain x w1 where c: "call (CreateRagStore (friendlyName gw fs))
                          (createRagStore gw (friendlyName gw fs)) w = (x, w1)"
    by (cases "call (CreateRagStore (friendlyName gw fs)) (createRagStore gw (friendlyName gw fs)) w")
  then have w1: "w1 = w\<lparr>uploadProgress := uploadProgress w, remote := remote w1, trace := trace w1\<rparr>"
    by (auto simp: call_def split: prod.splits)
  show ?thesis
  proof (cases x)
    case (Inl err)
    with assms c have "w' = w1" by (simp add: uploadTry_def)
    with w1 show ?thesis by blast
  next
    case (Inr ragStoreName)
    define w2 where "w2 = setUploadProgress
                     (Some \<lparr>current = 1, total_steps = length fs + 2,
                            message = Some ''Generating embeddings...'', fileName = None\<rparr>) w1"
    obtain y w3 where l: "uploadLoop gw ragStoreName fs 0 w2 = (y, w3)"
      by (cases "uploadLoop gw ragStoreName fs 0 w2")
    from uploadLoop_frame [OF l] obtain up r t
      where w3: "w3 = w2\<lparr>uploadProgress := up, remote := r, trace := t\<rparr>" by blast
    have "w3 = w\<lparr>uploadProgress := up, remote := r, trace := t\<rparr>"
      unfolding w3 w2_def setUploadProgress_def by (subst w1) simp
    moreover have "w' = w3"
      using assms c Inr l by (cases y) (simp_all add: uploadTry_def Let_def w2_def)
    ultimately show ?thesis by blast
  qed
qed

lemma uploadTry_fails:
  assumes "createRagStore gw (friendlyName gw fs) (remote w) = (Inr rid, r1)"
    and "remoteUploads gw rid fs r1 = (Inl e, r2)"
  shows "fst (uploadTry gw fs w) = Inl e"
proof -
  define w1 where "w1 = w\<lparr>remote := r1, trace := trace w @ [Remote (CreateRagStore (friendlyName gw fs))]\<rparr>"
  define w2 where "w2 = setUploadProgress
                     (Some \<lparr>current = 1, total_steps = length fs + 2,
                            message = Some ''Generating embeddings...'', fileName = None\<rparr>) w1"
  have c: "call (CreateRagStore (friendlyName gw fs)) (createRagStore gw (friendlyName gw fs)) w
             = (Inr rid, w1)"
    using assms(1) by (simp add: call_def w1_def)
  have "remote w2 = r1" by (simp add: w2_def w1_def setUploadProgress_def)
  with assms(2) uploadLoop_result [of gw rid fs 0 w2]
  have "fst (uploadLoop gw rid fs 0 w2) = Inl e" by simp
  then obtain w3 where "uploadLoop gw rid fs 0 w2 = (Inl e, w3)"
    by (cases "uploadLoop gw rid fs 0 w2") simp
  then show ?thesis
    unfolding uploadTry_def Let_def c by (simp add: w2_def)
qed

lemma uploadCatch_keeps:
  "files (uploadCatch e w) = files w"
  "activeRagStoreName (uploadCatch e w) = activeRagStoreName w"
  "existingStores (uploadCatch e w) = existingStores w"
  "status (uploadCatch e w) =
     (if includes_str (toLowerCase (errText e)) ''api key not valid''
         \<or> includes_str (toLowerCase (errText e)) ''requested entity was not found''
      then Welcome else Error)"
  by (simp_all add: uploadCatch_def handleError_def Let_def)

subsection \<open>Reading the trace\<close>

lemma progressValues_append:
  "progressValues (xs @ ys) = progressValues xs @ progressValues ys"
  by (induction xs rule: progressValues.induct) simp_all

lemma progressValues_loop:
  "progressValues (concat (map (loopEvents rs fs p) js)) =
     map (\<lambda>j. p\<lparr>current := j + 1, message := Some ''Generating embeddings...'',
                  fileName := Some (fileLabel fs j)\<rparr>) js"
  by (induction js) (simp_all add: loopEvents_def)

lemma produced_append: "trace w' = trace w @ es \<Longrightarrow> produced w w' = es"
  by (simp add: produced_def)

lemma remdups_adj_upt: "remdups_adj [m..<n] = [m..<n]"
  by (simp add: remdups_adj_distinct)

lemma listing_not_in_loop: "Remote ListRagStores \<notin> set (loopEvents rs fs p j)"
  by (simp add: loopEvents_def)

lemma sorted_currents: "sorted (0 # 1 # [1..<m])"
  by simp

lemma remdups_adj_currents:
  assumes "2 \<le> m"
  shows "remdups_adj (0 # 1 # [1..<m]) = [0..<m]"
proof -
  have a: "[1..<m] = 1 # [Suc 1..<m]" by (rule upt_conv_Cons) (use assms in simp)
  have b: "[0..<m] = 0 # [Suc 0..<m]" by (rule upt_conv_Cons) (use assms in simp)
  have "remdups_adj (0 # 1 # [1..<m]) = remdups_adj (0 # 1 # 1 # [Suc 1..<m])"
    using a by simp
  also have "\<dots> = 0 # remdups_adj (1 # [Suc 1..<m])" by simp
  also have "\<dots> = 0 # remdups_adj [1..<m]" using a by simp
  also have "\<dots> = 0 # [1..<m]" by (simp only: remdups_adj_upt)
  also have "\<dots> = [0..<m]" using b by simp
  finally show ?thesis .
qed

subsection \<open>The sessions of the small service\<close>

lemmas demo_defs =
  demoGateway_def offlineGateway_def uninitializedGateway_def stagedWorld_def welcomeWorld_def
  initialWorld_def manualPdf_def notesTxt_def brokenPdf_def store7_def

lemma string_of_nat_digit: "n < 10 \<Longrightarrow> string_of_nat n = [digit n]"
  by (subst string_of_nat.simps) simp

lemma upload_rejected_not_credential:
  "\<not> includes_str (toLowerCase ''upload rejected'') ''api key not valid''"
  "\<not> includes_str (toLowerCase ''upload rejected'') ''requested entity was not found''"
  by code_simp+

lemma chattingWorld_fields:
  "status chattingWorld = Chatting"
  "activeRagStoreName chattingWorld = Some ''store/7''"
  "remote chattingWorld = [store7]"
  "chatHistory chattingWorld
     = [userMessage ''Hello'',
        modelMessage \<lparr>result_text = ''See section 3.'',
                      result_groundingChunks = [''manual.pdf, page 12'']\<rparr>]"
  by (simp_all add: chattingWorld_def handleSendMessage_def handleSelectExistingStore_def
        call_def setUploadProgress_def Let_def demo_defs)

subsection \<open>Progress of a successful create-store run\<close>

text \<open>
  Claim C1, as amended. A create-store run over \<open>N \<ge> 1\<close> staged files whose remote steps all
  succeed makes \<open>N + 3\<close> progress updates and then clears the progress. Their \<open>current\<close>
  values are \<open>0, 1, 1, 2, ..., N + 1\<close>: they never decrease, they take each of the \<open>N + 2\<close>
  values from \<open>0\<close> to \<open>N + 1\<close> in turn, and the value \<open>1\<close> is set twice, after the store is
  created and again before the first upload. The last update before the clearing one
  carries the message \<open>Registered! updating library...\<close>.
\<close>

theorem create_store_progress_updates:
  assumes "isApiKeySelected w" and "files w \<noteq> []"
    and "createRagStore gw (friendlyName gw (files w)) (remote w) = (Inr rid, r1)"
    and "remoteUploads gw rid (files w) r1 = (Inr (), r2)"
  shows "fst (handleUploadAndStartChat gw w) = Inr ()
       \<and> length (progressValues (produced w (snd (handleUploadAndStartChat gw w)))) = length (files w) + 3
       \<and> map current (progressValues (produced w (snd (handleUploadAndStartChat gw w))))
           = 0 # 1 # [1..<length (files w) + 2]
       \<and> sorted (map current (progressValues (produced w (snd (handleUploadAndStartChat gw w)))))
       \<and> remdups_adj (map current (progressValues (produced w (snd (handleUploadAndStartChat gw w)))))
           = [0..<length (files w) + 2]
       \<and> message (last (progressValues (produced w (snd (handleUploadAndStartChat gw w)))))
           = Some ''Registered! updating library...''
       \<and> last (produced w (snd (handleUploadAndStartChat gw w))) = Progress None
       \<and> uploadProgress (snd (handleUploadAndStartChat gw w)) = None"
proof -
  let ?n = "length (files w)"
  let ?w' = "snd (handleUploadAndStartChat gw w)"
  let ?p1 = "\<lparr>current = 1, total_steps = ?n + 2,
              message = Some ''Generating embeddings...'', fileName = None\<rparr>"
  let ?reg = "\<lparr>current = ?n + 1, total_steps = ?n + 2,
               message = Some ''Registered! updating library...'', fileName = Some ''''\<rparr>"
  let ?es = "createEvents gw (files w) @ concat (map (loopEvents rid (files w) ?p1) [0..<?n])
             @ [Progress (Some ?reg),
                Cache (\<lparr>name = rid, displayName = friendlyName gw (files w)\<rparr> # existingStores w),
                Progress None]"
  note run = handleUpload_success [OF assms]
  have res: "fst (handleUploadAndStartChat gw w) = Inr ()" by (simp add: run)
  have "trace ?w' = trace w @ ?es" by (simp add: run)
  then have pr: "produced w ?w' = ?es" by (rule produced_append)
  have cur: "map current (progressValues (produced w ?w')) = 0 # 1 # map Suc [0..<?n] @ [?n + 1]"
    unfolding pr
    by (simp add: progressValues_append progressValues_loop createEvents_def o_def)
  have up: "[1..<?n + 2] = map Suc [0..<?n] @ [?n + 1]"
    by (simp only: map_Suc_upt) simp
  have cur': "map current (progressValues (produced w ?w')) = 0 # 1 # [1..<?n + 2]"
    unfolding cur up ..
  have len: "length (progressValues (produced w ?w')) = ?n + 3"
    using arg_cong [OF cur, of length] by simp
  have srt: "sorted (map current (progressValues (produced w ?w')))"
    unfolding cur' by (rule sorted_currents)
  have rd: "remdups_adj (map current (progressValues (produced w ?w'))) = [0..<?n + 2]"
    unfolding cur' by (rule remdups_adj_currents) simp
  have "last (progressValues (produced w ?w')) = ?reg"
    unfolding pr by (simp add: progressValues_append)
  then have msg: "message (last (progressValues (produced w ?w')))
                   = Some ''Registered! updating library...''"
    by simp
  have lev: "last (produced w ?w') = Progress None" unfolding pr by simp
  have clr: "uploadProgress ?w' = None" by (simp add: run)
  from res len cur' srt rd msg lev clr show ?thesis by (intro conjI)
qed

text \<open>Two staged files on the small service: the updates carry 0, 1, 1, 2, 3.\<close>

theorem create_store_progress_updates_witness:
  "isApiKeySelected (stagedWorld [manualPdf, notesTxt])
   \<and> files (stagedWorld [manualPdf, notesTxt]) \<noteq> []
   \<and> createRagStore demoGateway ''manual.pdf + 1 others'' (remote (stagedWorld [manualPdf, notesTxt]))
       = (Inr ''store/42'', [\<lparr>name = ''store/42'', displayName = ''manual.pdf + 1 others''\<rparr>])
   \<and> remoteUploads demoGateway ''store/42'' [manualPdf, notesTxt]
        [\<lparr>name = ''store/42'', displayName = ''manual.pdf + 1 others''\<rparr>]
       = (Inr (), [\<lparr>name = ''store/42'', displayName = ''manual.pdf + 1 others''\<rparr>])
   \<and> fst (handleUploadAndStartChat demoGateway (stagedWorld [manualPdf, notesTxt])) = Inr ()
   \<and> map current (progressValues (produced (stagedWorld [manualPdf, notesTxt])
         (snd (handleUploadAndStartChat demoGateway (stagedWorld [manualPdf, notesTxt])))))
       = [0, 1, 1, 2, 3]
   \<and> remdups_adj (map current (progressValues (produced (stagedWorld [manualPdf, notesTxt])
         (snd (handleUploadAndStartChat demoGateway (stagedWorld [manualPdf, notesTxt]))))))
       = [0, 1, 2, 3]
   \<and> message (last (progressValues (produced (stagedWorld [manualPdf, notesTxt])
         (snd (handleUploadAndStartChat demoGateway (stagedWorld [manualPdf, notesTxt]))))))
       = Some ''Registered! updating library...''"
proof -
  let ?w = "stagedWorld [manualPdf, notesTxt]"
  have fs: "files ?w = [manualPdf, notesTxt]" by (simp add: demo_defs)
  have fn: "friendlyName demoGateway (files ?w) = ''manual.pdf + 1 others''"
    by (simp add: friendlyName_def demo_defs string_of_nat_digit digit_def)
  have h1: "isApiKeySelected ?w" by (simp add: demo_defs)
  have h2: "files ?w \<noteq> []" by (simp add: demo_defs)
  have h3: "createRagStore demoGateway (friendlyName demoGateway (files ?w)) (remote ?w)
            = (Inr ''store/42'', [\<lparr>name = ''store/42'', displayName = ''manual.pdf + 1 others''\<rparr>])"
    unfolding fn by (simp add: demo_defs)
  have h4: "remoteUploads demoGateway ''store/42'' (files ?w)
              [\<lparr>name = ''store/42'', displayName = ''manual.pdf + 1 others''\<rparr>]
            = (Inr (), [\<lparr>name = ''store/42'', displayName = ''manual.pdf + 1 others''\<rparr>])"
    by (simp add: demo_defs)
  have u1: "0 # 1 # [1..<length (files ?w) + 2] = [0, 1, 1, 2, 3]"
    unfolding fs by (simp add: upt_conv_Cons)
  have u2: "[0..<length (files ?w) + 2] = [0, 1, 2, 3]"
    unfolding fs by (simp add: upt_conv_Cons)
  note t = create_store_progress_updates [OF h1 h2 h3 h4, unfolded u1 u2]
  from t h1 h2 h3 [unfolded fn] h4 [unfolded fs] show ?thesis by blast
qed

text \<open>
  With one staged file the run makes four progress updates, not three, and their
  \<open>current\<close> values 0, 1, 1, 2 are not strictly increasing.
\<close>

theorem create_store_progress_counterexample:
  "fst (handleUploadAndStartChat demoGateway (stagedWorld [manualPdf])) = Inr ()
   \<and> length (files (stagedWorld [manualPdf])) = 1
   \<and> map current (progressValues (produced (stagedWorld [manualPdf])
         (snd (handleUploadAndStartChat demoGateway (stagedWorld [manualPdf])))))
       = [0, 1, 1, 2]
   \<and> length (progressValues (produced (stagedWorld [manualPdf])
         (snd (handleUploadAndStartChat demoGateway (stagedWorld [manualPdf])))))
       \<noteq> length (files (stagedWorld [manualPdf])) + 2
   \<and> \<not> sorted_wrt (<) (map current (progressValues (produced (stagedWorld [manualPdf])
         (snd (handleUploadAndStartChat demoGateway (stagedWorld [manualPdf]))))))"
proof -
  let ?w = "stagedWorld [manualPdf]"
  have fs: "files ?w = [manualPdf]" by (simp add: demo_defs)
  have fn: "friendlyName demoGateway (files ?w) = ''manual.pdf''"
    by (simp add: friendlyName_def demo_defs)
  have h1: "isApiKeySelected ?w" by (simp add: demo_defs)
  have h2: "files ?w \<noteq> []" by (simp add: demo_defs)
  have h3: "createRagStore demoGateway (friendlyName demoGateway (files ?w)) (remote ?w)
            = (Inr ''store/42'', [\<lparr>name = ''store/42'', displayName = ''manual.pdf''\<rparr>])"
    unfolding fn by (simp add: demo_defs)
  have h4: "remoteUploads demoGateway ''store/42'' (files ?w)
              [\<lparr>name = ''store/42'', displayName = ''manual.pdf''\<rparr>]
            = (Inr (), [\<lparr>name = ''store/42'', displayName = ''manual.pdf''\<rparr>])"
    by (simp add: demo_defs)
  note run = handleUpload_success [OF h1 h2 h3 h4]
  have res: "fst (handleUploadAndStartChat demoGateway ?w) = Inr ()" by (simp add: run)
  have "trace (snd (handleUploadAndStartChat demoGateway ?w)) = trace ?w @
      (createEvents demoGateway (files ?w)
         @ concat (map (loopEvents ''store/42'' (files ?w)
               \<lparr>current = 1, total_steps = length (files ?w) + 2,
                message = Some ''Generating embeddings...'', fileName = None\<rparr>) [0..<length (files ?w)])
         @ [Progress (Some \<lparr>current = length (files ?w) + 1, total_steps = length (files ?w) + 2,
                    message = Some ''Registered! updating library...'', fileName = Some ''''\<rparr>),
            Cache (\<lparr>name = ''store/42'', displayName = friendlyName demoGateway (files ?w)\<rparr>
                     # existingStores ?w),
            Progress None])"
    by (simp add: run)
  then have cur: "map current (progressValues (produced ?w (snd (handleUploadAndStartChat demoGateway ?w))))
               = [0, 1, 1, 2]"
    unfolding produced_append [OF \<open>trace _ = _\<close>] fs
    by (simp add: progressValues_append createEvents_def loopEvents_def)
  have len: "length (progressValues (produced ?w (snd (handleUploadAndStartChat demoGateway ?w)))) = 4"
    using arg_cong [OF cur, of length] by simp
  have "\<not> sorted_wrt (<) [0, 1, 1, 2::nat]" by simp
  then have ns: "\<not> sorted_wrt (<) (map current (progressValues (produced ?w
                    (snd (handleUploadAndStartChat demoGateway ?w)))))"
    unfolding cur .
  have n: "length (files ?w) = 1" unfolding fs by simp
  have "length (progressValues (produced ?w (snd (handleUploadAndStartChat demoGateway ?w))))
          \<noteq> length (files ?w) + 2"
    unfolding len n by simp
  with res n cur ns show ?thesis by blast
qed

subsection \<open>A rejected upload\<close>

text \<open>
  Claim C2. When the store has been created, the uploads of the first \<open>k\<close> staged files
  succeed and the upload of file \<open>k\<close> is rejected, the run rethrows the rejection and leaves
  the staging set, the active store name and the library cache as they were; the upload
  progress is cleared, and the session is in \<open>Welcome\<close> for a credential-shaped rejection
  and in \<open>Error\<close> for any other.
\<close>

theorem upload_failure_aborts:
  assumes "isApiKeySelected w"
    and "createRagStore gw (friendlyName gw (files w)) (remote w) = (Inr rid, r1)"
    and "k < length (files w)"
    and "remoteUploads gw rid (take k (files w)) r1 = (Inr (), rk)"
    and "uploadToRagStore gw rid (files w ! k) rk = (Inl e, r')"
  shows "fst (handleUploadAndStartChat gw w) = Inl e
       \<and> files (snd (handleUploadAndStartChat gw w)) = files w
       \<and> activeRagStoreName (snd (handleUploadAndStartChat gw w)) = activeRagStoreName w
       \<and> existingStores (snd (handleUploadAndStartChat gw w)) = existingStores w
       \<and> uploadProgress (snd (handleUploadAndStartChat gw w)) = None
       \<and> status (snd (handleUploadAndStartChat gw w)) =
           (if includes_str (toLowerCase (errText e)) ''api key not valid''
               \<or> includes_str (toLowerCase (errText e)) ''requested entity was not found''
            then Welcome else Error)"
proof -
  define w3 where "w3 = setUploadProgress
                    (Some \<lparr>current = 0, total_steps = length (files w) + 2,
                           message = Some ''Creating document index...'', fileName = None\<rparr>)
                    (w\<lparr>apiKeyError := None, status := Uploading\<rparr>)"
  have ne: "length (files w) \<noteq> 0" using assms(3) by (cases "files w") simp_all
  have "remoteUploads gw rid (files w) r1 = (Inl e, r')"
    using assms(3,4,5) by (rule remoteUploads_fails_at)
  moreover have "createRagStore gw (friendlyName gw (files w)) (remote w3) = (Inr rid, r1)"
    using assms(2) by (simp add: w3_def setUploadProgress_def)
  ultimately have "fst (uploadTry gw (files w) w3) = Inl e" by (rule uploadTry_fails [rotated])
  then obtain w4 where t: "uploadTry gw (files w) w3 = (Inl e, w4)"
    by (cases "uploadTry gw (files w) w3") simp
  from uploadTry_failure_frame [OF t] obtain up r tr
    where w4: "w4 = w3\<lparr>uploadProgress := up, remote := r, trace := tr\<rparr>" by blast
  have run: "handleUploadAndStartChat gw w = (Inl e, setUploadProgress None (uploadCatch e w4))"
    unfolding handleUploadAndStartChat_def Let_def
    using assms(1) ne
    apply (simp only: if_False if_True not_True_eq_False)
    apply (fold w3_def)
    apply (simp only: t prod.case sum.case)
    done
  show ?thesis
    unfolding run
    by (simp add: setUploadProgress_def uploadCatch_keeps w4 w3_def)
qed

text \<open>Two staged files, the second one rejected by the service.\<close>

theorem upload_failure_aborts_witness:
  "isApiKeySelected (stagedWorld [manualPdf, brokenPdf])
   \<and> createRagStore demoGateway ''manual.pdf + 1 others'' (remote (stagedWorld [manualPdf, brokenPdf]))
       = (Inr ''store/42'', [\<lparr>name = ''store/42'', displayName = ''manual.pdf + 1 others''\<rparr>])
   \<and> (1::nat) < length (files (stagedWorld [manualPdf, brokenPdf]))
   \<and> remoteUploads demoGateway ''store/42'' [manualPdf]
        [\<lparr>name = ''store/42'', displayName = ''manual.pdf + 1 others''\<rparr>]
       = (Inr (), [\<lparr>name = ''store/42'', displayName = ''manual.pdf + 1 others''\<rparr>])
   \<and> uploadToRagStore demoGateway ''store/42'' brokenPdf
        [\<lparr>name = ''store/42'', displayName = ''manual.pdf + 1 others''\<rparr>]
       = (Inl (ErrorObj ''upload rejected''),
          [\<lparr>name = ''store/42'', displayName = ''manual.pdf + 1 others''\<rparr>])
   \<and> fst (handleUploadAndStartChat demoGateway (stagedWorld [manualPdf, brokenPdf]))
       = Inl (ErrorObj ''upload rejected'')
   \<and> files (snd (handleUploadAndStartChat demoGateway (stagedWorld [manualPdf, brokenPdf])))
       = [manualPdf, brokenPdf]
   \<and> activeRagStoreName (snd (handleUploadAndStartChat demoGateway (stagedWorld [manualPdf, brokenPdf])))
       = None
   \<and> existingStores (snd (handleUploadAndStartChat demoGateway (stagedWorld [manualPdf, brokenPdf])))
       = []
   \<and> uploadProgress (snd (handleUploadAndStartChat demoGateway (stagedWorld [manualPdf, brokenPdf])))
       = None
   \<and> status (snd (handleUploadAndStartChat demoGateway (stagedWorld [manualPdf, brokenPdf])))
       = Error"
proof -
  let ?w = "stagedWorld [manualPdf, brokenPdf]"
  let ?r = "[\<lparr>name = ''store/42'', displayName = ''manual.pdf + 1 others''\<rparr>]"
  have fs: "files ?w = [manualPdf, brokenPdf]" by (simp add: demo_defs)
  have fn: "friendlyName demoGateway (files ?w) = ''manual.pdf + 1 others''"
    by (simp add: friendlyName_def demo_defs string_of_nat_digit digit_def)
  have tk: "take 1 (files ?w) = [manualPdf]" and nth: "files ?w ! 1 = brokenPdf"
    unfolding fs by simp_all
  have st: "activeRagStoreName ?w = None" "existingStores ?w = []" by (simp_all add: demo_defs)
  have h1: "isApiKeySelected ?w" by (simp add: demo_defs)
  have h2: "createRagStore demoGateway (friendlyName demoGateway (files ?w)) (remote ?w)
            = (Inr ''store/42'', ?r)"
    unfolding fn by (simp add: demo_defs)
  have h3: "1 < length (files ?w)" unfolding fs by simp
  have h4: "remoteUploads demoGateway ''store/42'' (take 1 (files ?w)) ?r = (Inr (), ?r)"
    unfolding tk by (simp add: demo_defs)
  have h5: "uploadToRagStore demoGateway ''store/42'' (files ?w ! 1) ?r
            = (Inl (ErrorObj ''upload rejected''), ?r)"
    unfolding nth by (simp add: demo_defs)
  have cls: "(if includes_str (toLowerCase (errText (ErrorObj ''upload rejected''))) ''api key not valid''
               \<or> includes_str (toLowerCase (errText (ErrorObj ''upload rejected'')))
                    ''requested entity was not found''
            then Welcome else Error) = Error"
    using upload_rejected_not_credential by simp
  note t = upload_failure_aborts [OF h1 h2 h3 h4 h5, unfolded cls st fs]
  from t h1 h2 [unfolded fn] h3 h4 [unfolded tk] h5 [unfolded nth] show ?thesis by blast
qed

subsection \<open>Deleting a store\<close>

lemma handleDeleteStore_effects:
  "(case fst (deleteRagStore gw storeName (remote w)) of
      Inr u \<Rightarrow>
        produced w (handleDeleteStore gw storeName w)
          = [Remote (DeleteRagStore storeName),
             Cache (filter (\<lambda>s. name s \<noteq> storeName) (existingStores w)),
             Remote ListRagStores]
            @ (case fst (listRagStores gw (snd (deleteRagStore gw storeName (remote w)))) of
                 Inr stores \<Rightarrow> [Cache stores]
               | Inl err \<Rightarrow> [])
        \<and> existingStores (handleDeleteStore gw storeName w)
            = (case fst (listRagStores gw (snd (deleteRagStore gw storeName (remote w)))) of
                 Inr stores \<Rightarrow> stores
               | Inl err \<Rightarrow> filter (\<lambda>s. name s \<noteq> storeName) (existingStores w))
    | Inl err \<Rightarrow>
        produced w (handleDeleteStore gw storeName w)
          = [Remote (DeleteRagStore storeName), Alert ''Failed to delete the document set.'']
        \<and> existingStores (handleDeleteStore gw storeName w) = existingStores w)"
proof -
  obtain x r where d: "deleteRagStore gw storeName (remote w) = (x, r)"
    by (cases "deleteRagStore gw storeName (remote w)")
  obtain y r' where l: "listRagStores gw r = (y, r')"
    by (cases "listRagStores gw r")
  show ?thesis
  proof (cases x)
    case (Inl err)
    with d show ?thesis
      by (simp add: handleDeleteStore_def call_def alert_def produced_def)
  next
    case (Inr u)
    with d l show ?thesis
      by (cases y) (simp_all add: handleDeleteStore_def call_def produced_def
                      loadExistingStores_def setExistingStores_def Let_def)
  qed
qed

text \<open>
  Claim C3, as amended. A delete-store action, which the confirmation dialog starts with
  the identifier of its target, calls the remote delete first. When that succeeds, the
  entry is removed from the library cache and a refresh is then started, whose list
  replaces the cache if it arrives. When the remote delete fails, the cache is left as it
  was, the entry still in it, no refresh is started, and an alert is raised.
\<close>

theorem delete_store_order:
  assumes "confirmType (confirmState sc) = StoreTarget"
  shows "session (executeDelete gw sc)
           = handleDeleteStore gw (targetId (confirmState sc)) (session sc)
       \<and> (case fst (deleteRagStore gw (targetId (confirmState sc)) (remote (session sc))) of
            Inr u \<Rightarrow>
              produced (session sc) (session (executeDelete gw sc))
                = [Remote (DeleteRagStore (targetId (confirmState sc))),
                   Cache (filter (\<lambda>s. name s \<noteq> targetId (confirmState sc))
                            (existingStores (session sc))),
                   Remote ListRagStores]
                  @ (case fst (listRagStores gw
                                 (snd (deleteRagStore gw (targetId (confirmState sc))
                                         (remote (session sc))))) of
                       Inr stores \<Rightarrow> [Cache stores]
                     | Inl err \<Rightarrow> [])
              \<and> existingStores (session (executeDelete gw sc))
                  = (case fst (listRagStores gw
                                 (snd (deleteRagStore gw (targetId (confirmState sc))
                                         (remote (session sc))))) of
                       Inr stores \<Rightarrow> stores
                     | Inl err \<Rightarrow>
                         filter (\<lambda>s. name s \<noteq> targetId (confirmState sc))
                           (existingStores (session sc)))
          | Inl err \<Rightarrow>
              produced (session sc) (session (executeDelete gw sc))
                = [Remote (DeleteRagStore (targetId (confirmState sc))),
                   Alert ''Failed to delete the document set.'']
              \<and> existingStores (session (executeDelete gw sc)) = existingStores (session sc))"
proof -
  have link: "session (executeDelete gw sc)
                = handleDeleteStore gw (targetId (confirmState sc)) (session sc)"
    using assms by (simp add: executeDelete_def Let_def)
  show ?thesis
    unfolding link
    using handleDeleteStore_effects
            [where gw = gw and storeName = "targetId (confirmState sc)" and w = "session sc"]
    by simp
qed

text \<open>Deleting a store the service has: remote delete, removal from the cache, refresh.\<close>

theorem delete_store_order_witness:
  "confirmType (confirmState (confirmStore7\<lparr>session := welcomeWorld [store7] [store7]\<rparr>))
     = StoreTarget
   \<and> fst (deleteRagStore demoGateway ''store/7'' [store7]) = Inr ()
   \<and> produced (welcomeWorld [store7] [store7])
        (session (executeDelete demoGateway
                    (confirmStore7\<lparr>session := welcomeWorld [store7] [store7]\<rparr>)))
       = [Remote (DeleteRagStore ''store/7''), Cache [], Remote ListRagStores, Cache []]
   \<and> existingStores
        (session (executeDelete demoGateway
                    (confirmStore7\<lparr>session := welcomeWorld [store7] [store7]\<rparr>)))
       = []"
proof -
  let ?sc = "confirmStore7\<lparr>session := welcomeWorld [store7] [store7]\<rparr>"
  have h: "confirmType (confirmState ?sc) = StoreTarget" by (simp add: confirmStore7_def)
  have t: "targetId (confirmState confirmStore7) = ''store/7''" by (simp add: confirmStore7_def)
  have d: "deleteRagStore demoGateway ''store/7'' [store7] = (Inr (), [])"
    by (simp add: demo_defs)
  have l: "listRagStores demoGateway [] = (Inr [], [])" by (simp add: demo_defs)
  have r: "remote (welcomeWorld [store7] [store7]) = [store7]"
    and c: "existingStores (welcomeWorld [store7] [store7]) = [store7]"
    and n: "name store7 = ''store/7''"
    by (simp_all add: demo_defs)
  note run = delete_store_order [OF h, where gw = demoGateway, THEN conjunct2]
  have "produced (welcomeWorld [store7] [store7]) (session (executeDelete demoGateway ?sc))
          = [Remote (DeleteRagStore ''store/7''), Cache [], Remote ListRagStores, Cache []]
        \<and> existingStores (session (executeDelete demoGateway ?sc)) = []"
    using run by (simp add: t d l r c n)
  with h d show ?thesis by simp
qed

text \<open>
  Deleting a store the service rejects to delete: nothing is removed from the cache and no
  refresh is started, so the store is still listed after the failure.
\<close>

theorem delete_store_order_counterexample:
  "confirmType (confirmState confirmStore7) = StoreTarget
   \<and> store7 \<in> set (existingStores (session confirmStore7))
   \<and> fst (deleteRagStore demoGateway ''store/7'' (remote (session confirmStore7)))
       = Inl (ErrorObj ''no such store'')
   \<and> produced (session confirmStore7) (session (executeDelete demoGateway confirmStore7))
       = [Remote (DeleteRagStore ''store/7''), Alert ''Failed to delete the document set.'']
   \<and> existingStores (session (executeDelete demoGateway confirmStore7)) = [store7]"
  by (simp add: executeDelete_def handleDeleteStore_def call_def alert_def produced_def
        confirmStore7_def demo_defs)

subsection \<open>The guards of the create-store transition\<close>

text \<open>
  Claim C4, as amended. Invoked without a selected credential, the create-store transition
  sets the field-level error \<open>apiKeyError\<close> and throws; invoked with a credential and an
  empty staging set it returns at once, without any error and with the state untouched.
  In both cases the session status, the staging set, the library cache and the remote
  state are unchanged and no effect is added to the trace: no remote call is made.
\<close>

theorem create_store_guards:
  assumes "\<not> isApiKeySelected w \<or> files w = []"
  shows "handleUploadAndStartChat gw w =
           (if \<not> isApiKeySelected w
            then (Inl (ErrorObj ''API Key is required.''),
                  w\<lparr>apiKeyError := Some ''Please select your Gemini API Key first.''\<rparr>)
            else (Inr (), w))
       \<and> status (snd (handleUploadAndStartChat gw w)) = status w
       \<and> files (snd (handleUploadAndStartChat gw w)) = files w
       \<and> existingStores (snd (handleUploadAndStartChat gw w)) = existingStores w
       \<and> remote (snd (handleUploadAndStartChat gw w)) = remote w
       \<and> trace (snd (handleUploadAndStartChat gw w)) = trace w"
  using assms by (auto simp: handleUploadAndStartChat_def)

text \<open>An empty staging set with a credential, and a staged file without one.\<close>

theorem create_store_guards_witness:
  "files (stagedWorld []) = []
   \<and> handleUploadAndStartChat demoGateway (stagedWorld []) = (Inr (), stagedWorld [])
   \<and> trace (snd (handleUploadAndStartChat demoGateway (stagedWorld []))) = trace (stagedWorld [])
   \<and> \<not> isApiKeySelected ((stagedWorld [manualPdf])\<lparr>isApiKeySelected := False\<rparr>)
   \<and> handleUploadAndStartChat demoGateway ((stagedWorld [manualPdf])\<lparr>isApiKeySelected := False\<rparr>)
       = (Inl (ErrorObj ''API Key is required.''),
          (stagedWorld [manualPdf])
            \<lparr>isApiKeySelected := False,
             apiKeyError := Some ''Please select your Gemini API Key first.''\<rparr>)"
proof -
  have e: "files (stagedWorld []) = []" and s: "isApiKeySelected (stagedWorld [])"
    by (simp_all add: demo_defs)
  have n: "\<not> isApiKeySelected ((stagedWorld [manualPdf])\<lparr>isApiKeySelected := False\<rparr>)" by simp
  have h1: "\<not> isApiKeySelected (stagedWorld []) \<or> files (stagedWorld []) = []" using e by simp
  have h2: "\<not> isApiKeySelected ((stagedWorld [manualPdf])\<lparr>isApiKeySelected := False\<rparr>)
            \<or> files ((stagedWorld [manualPdf])\<lparr>isApiKeySelected := False\<rparr>) = []"
    by simp
  show ?thesis
    using create_store_guards [OF h1, where gw = demoGateway]
      create_store_guards [OF h2, where gw = demoGateway] e s n
    by simp
qed

text \<open>
  With a credential and an empty staging set the transition returns normally and sets no
  error of any kind.
\<close>

theorem create_store_guards_counterexample:
  "isApiKeySelected (stagedWorld [])
   \<and> files (stagedWorld []) = []
   \<and> fst (handleUploadAndStartChat demoGateway (stagedWorld [])) = Inr ()
   \<and> apiKeyError (snd (handleUploadAndStartChat demoGateway (stagedWorld []))) = None
   \<and> error (snd (handleUploadAndStartChat demoGateway (stagedWorld []))) = None"
  by (simp add: handleUploadAndStartChat_def demo_defs)

subsection \<open>Sending a chat message\<close>

text \<open>
  Claim C5. A send with an active store appends exactly two messages to the chat history,
  in this order: first the user message, of role \<open>user\<close>, whose one part is the text sent and
  which has no citations; then a message of role \<open>model\<close>. When the grounded query succeeds,
  the model message holds the answer text as its one part and the citations of the result,
  and the status and the error stay as they were. When the query fails, the model message
  is the apology \<open>Sorry, I encountered an error. Please try again.\<close> without citations, and
  the session enters \<open>Error\<close> with an error text. The in-flight flag is cleared either way.
\<close>

theorem send_message_appends_two:
  assumes "activeRagStoreName w = Some store" and "store \<noteq> ''''"
  shows "(case fst (fileSearch gw store msg (remote w)) of
            Inr result \<Rightarrow>
              chatHistory (handleSendMessage gw msg w)
                = chatHistory w
                  @ [\<lparr>role = User, parts = [msg], groundingChunks = None\<rparr>,
                     \<lparr>role = Model, parts = [result_text result],
                      groundingChunks = Some (result_groundingChunks result)\<rparr>]
              \<and> status (handleSendMessage gw msg w) = status w
              \<and> error (handleSendMessage gw msg w) = error w
          | Inl err \<Rightarrow>
              chatHistory (handleSendMessage gw msg w)
                = chatHistory w
                  @ [\<lparr>role = User, parts = [msg], groundingChunks = None\<rparr>,
                     \<lparr>role = Model,
                      parts = [''Sorry, I encountered an error. Please try again.''],
                      groundingChunks = None\<rparr>]
              \<and> status (handleSendMessage gw msg w) = Error
              \<and> error (handleSendMessage gw msg w)
                  = Some (''Failed to get response''
                          @ (if truthy err then '': '' @ errText err else '''')))
       \<and> length (chatHistory (handleSendMessage gw msg w)) = length (chatHistory w) + 2
       \<and> take (length (chatHistory w)) (chatHistory (handleSendMessage gw msg w)) = chatHistory w
       \<and> map role (drop (length (chatHistory w)) (chatHistory (handleSendMessage gw msg w)))
           = [User, Model]
       \<and> parts (chatHistory (handleSendMessage gw msg w) ! length (chatHistory w)) = [msg]
       \<and> \<not> isQueryLoading (handleSendMessage gw msg w)"
proof -
  obtain x r where f: "fileSearch gw store msg (remote w) = (x, r)"
    by (cases "fileSearch gw store msg (remote w)")
  show ?thesis
    using assms f
    by (cases x)
      (simp_all add: handleSendMessage_def call_def handleError_def Let_def
         userMessage_def modelMessage_def errorMessage_def)
qed

text \<open>A question on the small service, answered and, out of reach, unanswered.\<close>

theorem send_message_appends_two_witness:
  "activeRagStoreName chattingWorld = Some ''store/7''
   \<and> ''store/7'' \<noteq> ''''
   \<and> chatHistory (handleSendMessage demoGateway ''How do I reset it?'' chattingWorld)
       = [\<lparr>role = User, parts = [''Hello''], groundingChunks = None\<rparr>,
          \<lparr>role = Model, parts = [''See section 3.''],
           groundingChunks = Some [''manual.pdf, page 12'']\<rparr>,
          \<lparr>role = User, parts = [''How do I reset it?''], groundingChunks = None\<rparr>,
          \<lparr>role = Model, parts = [''See section 3.''],
           groundingChunks = Some [''manual.pdf, page 12'']\<rparr>]
   \<and> status (handleSendMessage demoGateway ''How do I reset it?'' chattingWorld) = Chatting
   \<and> \<not> isQueryLoading (handleSendMessage demoGateway ''How do I reset it?'' chattingWorld)
   \<and> chatHistory (handleSendMessage offlineGateway ''How do I reset it?'' chattingWorld)
       = [\<lparr>role = User, parts = [''Hello''], groundingChunks = None\<rparr>,
          \<lparr>role = Model, parts = [''See section 3.''],
           groundingChunks = Some [''manual.pdf, page 12'']\<rparr>,
          \<lparr>role = User, parts = [''How do I reset it?''], groundingChunks = None\<rparr>,
          \<lparr>role = Model, parts = [''Sorry, I encountered an error. Please try again.''],
           groundingChunks = None\<rparr>]
   \<and> map role (drop 2 (chatHistory (handleSendMessage offlineGateway ''How do I reset it?''
                                      chattingWorld)))
       = [User, Model]
   \<and> status (handleSendMessage offlineGateway ''How do I reset it?'' chattingWorld) = Error
   \<and> error (handleSendMessage offlineGateway ''How do I reset it?'' chattingWorld)
       = Some ''Failed to get response: network error''
   \<and> \<not> isQueryLoading (handleSendMessage offlineGateway ''How do I reset it?'' chattingWorld)"
proof -
  have h1: "activeRagStoreName chattingWorld = Some ''store/7''" by (rule chattingWorld_fields)
  have h2: "''store/7'' \<noteq> ''''" by simp
  have ok: "fst (fileSearch demoGateway ''store/7'' ''How do I reset it?'' (remote chattingWorld))
            = Inr \<lparr>result_text = ''See section 3.'',
                   result_groundingChunks = [''manual.pdf, page 12'']\<rparr>"
    by (simp add: demo_defs)
  have ko: "fst (fileSearch offlineGateway ''store/7'' ''How do I reset it?'' (remote chattingWorld))
            = Inl (ErrorObj ''network error'')"
    by (simp add: demo_defs)
  have st: "status chattingWorld = Chatting" by (rule chattingWorld_fields)
  have hist: "chatHistory chattingWorld
                = [\<lparr>role = User, parts = [''Hello''], groundingChunks = None\<rparr>,
                   \<lparr>role = Model, parts = [''See section 3.''],
                    groundingChunks = Some [''manual.pdf, page 12'']\<rparr>]"
    by (simp add: chattingWorld_fields userMessage_def modelMessage_def)
  show ?thesis
    using send_message_appends_two
            [OF h1 h2, where gw = demoGateway and msg = "''How do I reset it?''"]
      send_message_appends_two
            [OF h1 h2, where gw = offlineGateway and msg = "''How do I reset it?''"] h1
    by (simp add: ok ko st hist)
qed

subsection \<open>The outcome of a successful create-store run\<close>

text \<open>
  Claim C6. When the store is created and every upload succeeds, the run ends in \<open>Welcome\<close>,
  the new store, with the identifier the remote side returned and the derived display name,
  is at position 0 of the library cache in front of the former entries, the staging set is
  empty, and the run has not asked the remote side for the list of stores.
\<close>

theorem create_store_success:
  assumes "isApiKeySelected w" and "files w \<noteq> []"
    and "createRagStore gw (friendlyName gw (files w)) (remote w) = (Inr rid, r1)"
    and "remoteUploads gw rid (files w) r1 = (Inr (), r2)"
  shows "fst (handleUploadAndStartChat gw w) = Inr ()
       \<and> status (snd (handleUploadAndStartChat gw w)) = Welcome
       \<and> existingStores (snd (handleUploadAndStartChat gw w))
           = \<lparr>name = rid, displayName = friendlyName gw (files w)\<rparr> # existingStores w
       \<and> existingStores (snd (handleUploadAndStartChat gw w)) ! 0
           = \<lparr>name = rid, displayName = friendlyName gw (files w)\<rparr>
       \<and> files (snd (handleUploadAndStartChat gw w)) = []
       \<and> Remote ListRagStores \<notin> set (produced w (snd (handleUploadAndStartChat gw w)))"
proof -
  let ?w' = "snd (handleUploadAndStartChat gw w)"
  note run = handleUpload_success [OF assms]
  have "trace ?w' = trace w @ createEvents gw (files w)
           @ concat (map (loopEvents rid (files w)
                 \<lparr>current = 1, total_steps = length (files w) + 2,
                      message = Some ''Generating embeddings...'', fileName = None\<rparr>) [0..<length (files w)])
           @ [Progress (Some \<lparr>current = length (files w) + 1, total_steps = length (files w) + 2,
                      message = Some ''Registered! updating library...'', fileName = Some ''''\<rparr>),
              Cache (\<lparr>name = rid, displayName = friendlyName gw (files w)\<rparr> # existingStores w),
              Progress None]"
    by (simp add: run)
  then have "Remote ListRagStores \<notin> set (produced w ?w')"
    by (simp add: produced_append listing_not_in_loop createEvents_def)
  then show ?thesis by (simp add: run)
qed

text \<open>
  The end-to-end scenario: \<open>manual.pdf\<close> staged, the service returns \<open>store/42\<close>.
\<close>

theorem create_store_success_witness:
  "isApiKeySelected (stagedWorld [manualPdf])
   \<and> files (stagedWorld [manualPdf]) \<noteq> []
   \<and> createRagStore demoGateway ''manual.pdf'' (remote (stagedWorld [manualPdf]))
       = (Inr ''store/42'', [\<lparr>name = ''store/42'', displayName = ''manual.pdf''\<rparr>])
   \<and> remoteUploads demoGateway ''store/42'' [manualPdf]
        [\<lparr>name = ''store/42'', displayName = ''manual.pdf''\<rparr>]
       = (Inr (), [\<lparr>name = ''store/42'', displayName = ''manual.pdf''\<rparr>])
   \<and> fst (handleUploadAndStartChat demoGateway (stagedWorld [manualPdf])) = Inr ()
   \<and> status (snd (handleUploadAndStartChat demoGateway (stagedWorld [manualPdf]))) = Welcome
   \<and> existingStores (snd (handleUploadAndStartChat demoGateway (stagedWorld [manualPdf]))) ! 0
       = \<lparr>name = ''store/42'', displayName = ''manual.pdf''\<rparr>
   \<and> files (snd (handleUploadAndStartChat demoGateway (stagedWorld [manualPdf]))) = []
   \<and> Remote ListRagStores
       \<notin> set (produced (stagedWorld [manualPdf])
                (snd (handleUploadAndStartChat demoGateway (stagedWorld [manualPdf]))))"
proof -
  let ?w = "stagedWorld [manualPdf]"
  have fs: "files ?w = [manualPdf]" by (simp add: demo_defs)
  have fn: "friendlyName demoGateway (files ?w) = ''manual.pdf''"
    by (simp add: friendlyName_def demo_defs)
  have h1: "isApiKeySelected ?w" by (simp add: demo_defs)
  have h2: "files ?w \<noteq> []" by (simp add: demo_defs)
  have h3: "createRagStore demoGateway (friendlyName demoGateway (files ?w)) (remote ?w)
            = (Inr ''store/42'', [\<lparr>name = ''store/42'', displayName = ''manual.pdf''\<rparr>])"
    unfolding fn by (simp add: demo_defs)
  have h4: "remoteUploads demoGateway ''store/42'' (files ?w)
              [\<lparr>name = ''store/42'', displayName = ''manual.pdf''\<rparr>]
            = (Inr (), [\<lparr>name = ''store/42'', displayName = ''manual.pdf''\<rparr>])"
    by (simp add: demo_defs)
  note t = create_store_success [OF h1 h2 h3 h4, unfolded fn]
  from t h1 h2 h3 [unfolded fn] h4 [unfolded fs] show ?thesis by blast
qed

subsection \<open>The life of the chat history\<close>

text \<open>
  Claim C7, as amended. While the session is \<open>Chatting\<close>, a send only appends to the chat
  history. Ending the chat goes to \<open>Welcome\<close> with the history emptied, and every entry into
  \<open>Chatting\<close> through the selection of a store starts from an empty history. A failed send
  goes to \<open>Error\<close> without resetting the history: it holds the former messages, the user
  message and the apology, and still does after the recovery to \<open>Welcome\<close>.
\<close>

theorem chat_history_lifecycle:
  assumes "status w = Chatting" and "activeRagStoreName w = Some store" and "store \<noteq> ''''"
  shows "(case fst (fileSearch gw store msg (remote w)) of
            Inr result \<Rightarrow>
              status (handleSendMessage gw msg w) = Chatting
              \<and> chatHistory (handleSendMessage gw msg w)
                  = chatHistory w @ [userMessage msg, modelMessage result]
          | Inl err \<Rightarrow>
              status (handleSendMessage gw msg w) = Error
              \<and> chatHistory (handleSendMessage gw msg w)
                  = chatHistory w @ [userMessage msg, errorMessage]
              \<and> chatHistory (clearError (handleSendMessage gw msg w))
                  = chatHistory w @ [userMessage msg, errorMessage])
       \<and> status (handleEndChat gw w) = Welcome
       \<and> chatHistory (handleEndChat gw w) = []
       \<and> (case fst (generateExampleQuestions gw (name s) (remote v)) of
            Inr questions \<Rightarrow>
              status (handleSelectExistingStore gw s v) = Chatting
              \<and> chatHistory (handleSelectExistingStore gw s v) = []
          | Inl err \<Rightarrow>
              status (handleSelectExistingStore gw s v) = Error
              \<and> chatHistory (handleSelectExistingStore gw s v) = chatHistory v)"
proof -
  obtain x r where f: "fileSearch gw store msg (remote w) = (x, r)"
    by (cases "fileSearch gw store msg (remote w)")
  have send: "case fst (fileSearch gw store msg (remote w)) of
            Inr result \<Rightarrow>
              status (handleSendMessage gw msg w) = Chatting
              \<and> chatHistory (handleSendMessage gw msg w)
                  = chatHistory w @ [userMessage msg, modelMessage result]
          | Inl err \<Rightarrow>
              status (handleSendMessage gw msg w) = Error
              \<and> chatHistory (handleSendMessage gw msg w)
                  = chatHistory w @ [userMessage msg, errorMessage]
              \<and> chatHistory (clearError (handleSendMessage gw msg w))
                  = chatHistory w @ [userMessage msg, errorMessage]"
    using assms f
    by (cases x) (simp_all add: handleSendMessage_def call_def handleError_def clearError_def Let_def)
  obtain y r' where l: "listRagStores gw (remote w) = (y, r')"
    by (cases "listRagStores gw (remote w)")
  have endc: "status (handleEndChat gw w) = Welcome \<and> chatHistory (handleEndChat gw w) = []"
    using assms(1) l
    by (cases y) (simp_all add: handleEndChat_def loadExistingStores_def call_def
                    setExistingStores_def Let_def)
  obtain z r'' where g: "generateExampleQuestions gw (name s) (remote v) = (z, r'')"
    by (cases "generateExampleQuestions gw (name s) (remote v)")
  have sel: "case fst (generateExampleQuestions gw (name s) (remote v)) of
            Inr questions \<Rightarrow>
              status (handleSelectExistingStore gw s v) = Chatting
              \<and> chatHistory (handleSelectExistingStore gw s v) = []
          | Inl err \<Rightarrow>
              status (handleSelectExistingStore gw s v) = Error
              \<and> chatHistory (handleSelectExistingStore gw s v) = chatHistory v"
    using g
    by (cases z) (simp_all add: handleSelectExistingStore_def call_def setUploadProgress_def
                    handleError_def Let_def)
  from send endc sel show ?thesis by (intro conjI) simp_all
qed

text \<open>A chat with \<open>store/7\<close> whose next query fails.\<close>

theorem chat_history_lifecycle_witness:
  "status chattingWorld = Chatting
   \<and> activeRagStoreName chattingWorld = Some ''store/7''
   \<and> ''store/7'' \<noteq> ''''
   \<and> status (handleSendMessage offlineGateway ''How do I reset it?'' chattingWorld) = Error
   \<and> chatHistory (handleSendMessage offlineGateway ''How do I reset it?'' chattingWorld)
       = chatHistory chattingWorld @ [userMessage ''How do I reset it?'', errorMessage]
   \<and> chatHistory (clearError (handleSendMessage offlineGateway ''How do I reset it?'' chattingWorld))
       = chatHistory chattingWorld @ [userMessage ''How do I reset it?'', errorMessage]
   \<and> status (handleEndChat offlineGateway chattingWorld) = Welcome
   \<and> chatHistory (handleEndChat offlineGateway chattingWorld) = []
   \<and> status (handleSelectExistingStore offlineGateway store7 (welcomeWorld [store7] [store7]))
       = Chatting
   \<and> chatHistory (handleSelectExistingStore offlineGateway store7 (welcomeWorld [store7] [store7]))
       = []"
proof -
  have h1: "status chattingWorld = Chatting" by (rule chattingWorld_fields)
  have h2: "activeRagStoreName chattingWorld = Some ''store/7''" by (rule chattingWorld_fields)
  have h3: "''store/7'' \<noteq> ''''" by simp
  have ko: "fst (fileSearch offlineGateway ''store/7'' ''How do I reset it?'' (remote chattingWorld))
            = Inl (ErrorObj ''network error'')"
    by (simp add: demo_defs)
  have q: "fst (generateExampleQuestions offlineGateway (name store7)
                  (remote (welcomeWorld [store7] [store7])))
           = Inr [''How do I reset it?'', ''What is the warranty?'']"
    by (simp add: demo_defs)
  show ?thesis
    using chat_history_lifecycle
            [OF h1 h2 h3, where gw = offlineGateway and msg = "''How do I reset it?''"
               and s = store7 and v = "welcomeWorld [store7] [store7]"] h1 h2
    by (simp add: ko q)
qed

text \<open>
  A failed send takes the session from \<open>Chatting\<close> to \<open>Error\<close> with four messages in the
  chat history.
\<close>

theorem chat_history_lifecycle_counterexample:
  "status chattingWorld = Chatting
   \<and> status (handleSendMessage offlineGateway ''How do I reset it?'' chattingWorld) = Error
   \<and> chatHistory (handleSendMessage offlineGateway ''How do I reset it?'' chattingWorld)
       = [userMessage ''Hello'',
          modelMessage \<lparr>result_text = ''See section 3.'',
                        result_groundingChunks = [''manual.pdf, page 12'']\<rparr>,
          userMessage ''How do I reset it?'',
          errorMessage]
   \<and> chatHistory (handleSendMessage offlineGateway ''How do I reset it?'' chattingWorld) \<noteq> []"
  by (simp add: handleSendMessage_def call_def handleError_def Let_def chattingWorld_fields
        demo_defs)

subsection \<open>Refreshing the library\<close>

text \<open>
  Claim C8. A refresh of the library that succeeds replaces the cache by the fetched list
  and leaves no library error; one that fails keeps the cache and records the error. A
  session that is not in \<open>Error\<close> is not there after the refresh either: the status stays
  as it was, or goes to \<open>Welcome\<close> when the closure was created while \<open>Initializing\<close>.
\<close>

theorem refresh_replaces_or_retains:
  assumes "status w \<noteq> Error"
  shows "(case fst (listRagStores gw (remote w)) of
            Inr stores \<Rightarrow>
              existingStores (loadExistingStores gw rendered w) = stores
              \<and> libraryError (loadExistingStores gw rendered w) = None
          | Inl err \<Rightarrow>
              existingStores (loadExistingStores gw rendered w) = existingStores w
              \<and> libraryError (loadExistingStores gw rendered w)
                  = Some ''Failed to load your library. Please check your network or API key.'')
       \<and> status (loadExistingStores gw rendered w) \<noteq> Error
       \<and> status (loadExistingStores gw rendered w)
           = (if rendered = Initializing then Welcome else status w)
       \<and> error (loadExistingStores gw rendered w) = error w
       \<and> \<not> isLoadingStores (loadExistingStores gw rendered w)"
proof -
  obtain y r' where l: "listRagStores gw (remote w) = (y, r')"
    by (cases "listRagStores gw (remote w)")
  show ?thesis
    using assms l
    by (cases y) (simp_all add: loadExistingStores_def call_def setExistingStores_def Let_def)
qed

text \<open>A refresh out of reach of the service, and one that finds it empty.\<close>

theorem refresh_replaces_or_retains_witness:
  "status (welcomeWorld [store7] [store7]) \<noteq> Error
   \<and> existingStores (loadExistingStores offlineGateway Welcome (welcomeWorld [store7] [store7]))
       = existingStores (welcomeWorld [store7] [store7])
   \<and> libraryError (loadExistingStores offlineGateway Welcome (welcomeWorld [store7] [store7]))
       = Some ''Failed to load your library. Please check your network or API key.''
   \<and> status (loadExistingStores offlineGateway Welcome (welcomeWorld [store7] [store7])) = Welcome
   \<and> status (welcomeWorld [store7] []) \<noteq> Error
   \<and> existingStores (loadExistingStores demoGateway Welcome (welcomeWorld [store7] [])) = []
   \<and> libraryError (loadExistingStores demoGateway Welcome (welcomeWorld [store7] [])) = None"
proof -
  have h1: "status (welcomeWorld [store7] [store7]) \<noteq> Error"
    and h2: "status (welcomeWorld [store7] []) \<noteq> Error"
    by (simp_all add: demo_defs)
  have s1: "status (welcomeWorld [store7] [store7]) = Welcome" by (simp add: demo_defs)
  have ko: "fst (listRagStores offlineGateway (remote (welcomeWorld [store7] [store7])))
            = Inl (ErrorObj ''network error'')"
    by (simp add: demo_defs)
  have ok: "fst (listRagStores demoGateway (remote (welcomeWorld [store7] []))) = Inr []"
    by (simp add: demo_defs)
  show ?thesis
    using refresh_replaces_or_retains [OF h1, where gw = offlineGateway and rendered = Welcome]
      refresh_replaces_or_retains [OF h2, where gw = demoGateway and rendered = Welcome] h1 h2
    by (simp add: ko ok s1)
qed

subsection \<open>A selection that fails\<close>

text \<open>
  Claim C9. When the gateway throws while an existing store is being selected, the session
  enters \<open>Error\<close> with the active store name and the document name of the selected store
  set and the progress cleared; the recovery to \<open>Welcome\<close> clears the error and keeps that
  active store name.
\<close>

theorem failed_selection_keeps_active_store:
  assumes "fst (generateExampleQuestions gw (name store) (remote w)) = Inl err"
  shows "status (handleSelectExistingStore gw store w) = Error
       \<and> activeRagStoreName (handleSelectExistingStore gw store w) = Some (name store)
       \<and> documentName (handleSelectExistingStore gw store w) = displayName store
       \<and> uploadProgress (handleSelectExistingStore gw store w) = None
       \<and> status (clearError (handleSelectExistingStore gw store w)) = Welcome
       \<and> error (clearError (handleSelectExistingStore gw store w)) = None
       \<and> activeRagStoreName (clearError (handleSelectExistingStore gw store w)) = Some (name store)"
proof -
  obtain r where g: "generateExampleQuestions gw (name store) (remote w) = (Inl err, r)"
    using assms by (cases "generateExampleQuestions gw (name store) (remote w)") simp
  show ?thesis
    using g
    by (simp add: handleSelectExistingStore_def call_def setUploadProgress_def
          handleError_def clearError_def Let_def)
qed

text \<open>Selecting \<open>store/7\<close> with a client that was never initialised.\<close>

theorem failed_selection_keeps_active_store_witness:
  "fst (generateExampleQuestions uninitializedGateway (name store7)
          (remote (welcomeWorld [store7] [store7])))
     = Inl (ErrorObj ''Gemini AI client not initialized. Please wait for the API key to load.'')
   \<and> activeRagStoreName (welcomeWorld [store7] [store7]) = None
   \<and> status (handleSelectExistingStore uninitializedGateway store7 (welcomeWorld [store7] [store7]))
       = Error
   \<and> activeRagStoreName
        (handleSelectExistingStore uninitializedGateway store7 (welcomeWorld [store7] [store7]))
       = Some ''store/7''
   \<and> status (clearError
        (handleSelectExistingStore uninitializedGateway store7 (welcomeWorld [store7] [store7])))
       = Welcome
   \<and> activeRagStoreName (clearError
        (handleSelectExistingStore uninitializedGateway store7 (welcomeWorld [store7] [store7])))
       = Some ''store/7''"
proof -
  have h: "fst (generateExampleQuestions uninitializedGateway (name store7)
                  (remote (welcomeWorld [store7] [store7])))
           = Inl (ErrorObj ''Gemini AI client not initialized. Please wait for the API key to load.'')"
    by (simp add: demo_defs)
  have n: "name store7 = ''store/7''" by (simp add: store7_def)
  have a: "activeRagStoreName (welcomeWorld [store7] [store7]) = None" by (simp add: demo_defs)
  show ?thesis
    using failed_selection_keeps_active_store [OF h] h a by (simp add: n)
qed

subsection \<open>Listed documents\<close>

lemma mapDocuments_elements:
  "mapDocuments fs = Inr docs \<Longrightarrow>
   length docs = length fs \<and> (\<forall>i<length fs. toDocument (fs ! i) = Inr (docs ! i))"
proof (induction fs arbitrary: docs)
  case Nil
  then show ?case by simp
next
  case (Cons f fs)
  from Cons.prems obtain d ds
    where d: "toDocument f = Inr d" and ds: "mapDocuments fs = Inr ds" and docs: "docs = d # ds"
    by (auto split: sum.splits)
  from Cons.IH [OF ds] have len: "length ds = length fs"
    and el: "\<And>i. i < length fs \<Longrightarrow> toDocument (fs ! i) = Inr (ds ! i)" by simp_all
  show ?case
  proof (intro conjI allI impI)
    show "length docs = length (f # fs)" using len docs by simp
  next
    fix i assume "i < length (f # fs)"
    then show "toDocument ((f # fs) ! i) = Inr (docs ! i)"
      using d el docs by (cases i) simp_all
  qed
qed

lemma toDocument_fields:
  assumes "toDocument f = Inr d"
  shows "customMetadata d = []"
    and "getProp f ''displayName'' = Some JUndefined \<Longrightarrow> getProp f ''display_name'' = Some JUndefined
         \<Longrightarrow> doc_displayName d = JStr ''Untitled Document''"
  using assms by (auto simp: toDocument_def js_or_def split: option.splits)

text \<open>
  Claim C10. Every document that \<open>listDocuments\<close> returns has an empty \<open>customMetadata\<close>,
  whatever the response holds; the documents are those of the array found in the response,
  in order, and one whose element has neither a \<open>displayName\<close> nor a \<open>display_name\<close> is
  called \<open>Untitled Document\<close>.
\<close>

theorem list_documents_drops_metadata:
  assumes "listDocuments apiKey ai listFiles ragStoreName = Inr docs"
  shows "(\<forall>d \<in> set docs. customMetadata d = [])
       \<and> (\<exists>response. listFiles ragStoreName = Inr response
            \<and> length docs = length (findArrayInResponse response)
            \<and> (\<forall>i < length docs.
                  getProp (findArrayInResponse response ! i) ''displayName'' = Some JUndefined
                  \<and> getProp (findArrayInResponse response ! i) ''display_name'' = Some JUndefined
                  \<longrightarrow> doc_displayName (docs ! i) = JStr ''Untitled Document''))"
proof -
  from assms obtain response
    where r: "listFiles ragStoreName = Inr response"
      and m: "mapDocuments (findArrayInResponse response) = Inr docs"
    by (auto simp: listDocuments_def split: sum.splits)
  from mapDocuments_elements [OF m]
  have len: "length docs = length (findArrayInResponse response)"
    and el: "\<And>i. i < length docs \<Longrightarrow> toDocument (findArrayInResponse response ! i) = Inr (docs ! i)"
    by simp_all
  have meta: "\<forall>d \<in> set docs. customMetadata d = []"
  proof
    fix d assume "d \<in> set docs"
    then obtain i where "i < length docs" and "docs ! i = d" by (auto simp: in_set_conv_nth)
    with el [of i] show "customMetadata d = []" by (auto dest: toDocument_fields(1))
  qed
  have untitled: "\<forall>i < length docs.
                  getProp (findArrayInResponse response ! i) ''displayName'' = Some JUndefined
                  \<and> getProp (findArrayInResponse response ! i) ''display_name'' = Some JUndefined
                  \<longrightarrow> doc_displayName (docs ! i) = JStr ''Untitled Document''"
    using el by (auto dest: toDocument_fields(2))
  from meta r len untitled show ?thesis by blast
qed

text \<open>The listing of \<open>store/7\<close>: two documents, the metadata of the second one dropped.\<close>

theorem list_documents_drops_metadata_witness:
  "listDocuments True False demoListFiles ''store/7''
     = Inr [\<lparr>doc_name = JStr ''documents/a'', doc_displayName = JStr ''Untitled Document'',
             customMetadata = []\<rparr>,
            \<lparr>doc_name = JStr ''documents/b'', doc_displayName = JStr ''b.pdf'',
             customMetadata = []\<rparr>]
   \<and> getProp (findArrayInResponse
               (JObj [(''nextPageToken'', JStr ''''),
                      (''documents'',
                       JArr [JObj [(''name'', JStr ''documents/a'')],
                             JObj [(''name'', JStr ''documents/b''),
                                   (''display_name'', JStr ''b.pdf''),
                                   (''customMetadata'',
                                    JArr [JObj [(''key'', JStr ''author''),
                                                (''stringValue'', JStr ''LG'')]])]])]) ! 0)
        ''displayName'' = Some JUndefined"
proof -
  have h: "listDocuments True False demoListFiles ''store/7''
     = Inr [\<lparr>doc_name = JStr ''documents/a'', doc_displayName = JStr ''Untitled Document'',
             customMetadata = []\<rparr>,
            \<lparr>doc_name = JStr ''documents/b'', doc_displayName = JStr ''b.pdf'',
             customMetadata = []\<rparr>]"
    by (simp add: listDocuments_def ensureInitialized_def initialize_def demoListFiles_def
          findArrayInResponse_def knownKey_def knownArray_def toDocument_def js_or_def)
  have g: "getProp (findArrayInResponse
               (JObj [(''nextPageToken'', JStr ''''),
                      (''documents'',
                       JArr [JObj [(''name'', JStr ''documents/a'')],
                             JObj [(''name'', JStr ''documents/b''),
                                   (''display_name'', JStr ''b.pdf''),
                                   (''customMetadata'',
                                    JArr [JObj [(''key'', JStr ''author''),
                                                (''stringValue'', JStr ''LG'')]])]])]) ! 0)
        ''displayName'' = Some JUndefined"
    by (simp add: findArrayInResponse_def knownKey_def knownArray_def)
  show ?thesis
    using list_documents_drops_metadata [OF h] h g by simp
qed

end
